theory Spec2Isabelle
  imports Main
begin

section \<open>JavaScript values\<close>

text \<open>
  The values that flow through \<^verbatim>\<open>server.js\<close> are parsed JSON (the request body, the
  bodies of downstream responses) and \<^verbatim>\<open>undefined\<close>. A number is represented by its
  canonical ECMAScript rendering (what \<^verbatim>\<open>String(n)\<close> yields): the program only ever
  compares numbers with \<^verbatim>\<open>===\<close> and interpolates them into strings, and two numbers
  parsed from JSON are \<^verbatim>\<open>===\<close> exactly when they render alike. An object is the
  association list of its own properties, with distinct keys.
\<close>

datatype jsval =
    JUndefined
  | JNull
  | JBool bool
  | JNum string
  | JStr string
  | JArr "jsval list"
  | JObj "(string \<times> jsval) list"

text \<open>
  The errors that can be thrown or rejected with in this program. The status of an axios
  response is a number.
\<close>

record axios_response =
  resp_status :: nat
  resp_data :: jsval

datatype js_error =
    BadRequestError string
  | Error string
  | TypeError string
  | SyntaxError string
  | AxiosError string "axios_response option"

fun err_name :: "js_error \<Rightarrow> string" where
  "err_name (BadRequestError m) = ''BadRequestError''"
| "err_name (Error m) = ''Error''"
| "err_name (TypeError m) = ''TypeError''"
| "err_name (SyntaxError m) = ''SyntaxError''"
| "err_name (AxiosError m r) = ''AxiosError''"

fun err_message :: "js_error \<Rightarrow> string" where
  "err_message (BadRequestError m) = m"
| "err_message (Error m) = m"
| "err_message (TypeError m) = m"
| "err_message (SyntaxError m) = m"
| "err_message (AxiosError m r) = m"

text \<open>Only an error that axios rejects with can carry a \<^verbatim>\<open>response\<close>.\<close>

fun err_response :: "js_error \<Rightarrow> axios_response option" where
  "err_response (AxiosError m r) = r"
| "err_response e = None"

text \<open>
  \<^verbatim>\<open>httpStatus\<close> is a property of a \<^verbatim>\<open>BadRequestError\<close> only (the package sets it to
  400 in the constructor); the program reads it behind a test of the error's name.
\<close>

fun err_httpStatus :: "js_error \<Rightarrow> int" where
  "err_httpStatus (BadRequestError m) = 400"

text \<open>
  Reading a property: of \<^verbatim>\<open>undefined\<close> or \<^verbatim>\<open>null\<close> it throws a TypeError, of an
  object it is the own property or \<^verbatim>\<open>undefined\<close>, of any other value it is
  \<^verbatim>\<open>undefined\<close> (none of the property names the program reads is inherited from a
  prototype).
\<close>

definition cannot_read :: "string \<Rightarrow> string \<Rightarrow> js_error" where
  "cannot_read what k =
     TypeError (''Cannot read properties of '' @ what @ '' (reading '' @ [CHR 0x27] @ k @ [CHR 0x27] @ '')'')"

fun js_get :: "jsval \<Rightarrow> string \<Rightarrow> js_error + jsval" where
  "js_get JUndefined k = Inl (cannot_read ''undefined'' k)"
| "js_get JNull k = Inl (cannot_read ''null'' k)"
| "js_get (JObj kvs) k = Inr (case map_of kvs k of None \<Rightarrow> JUndefined | Some v \<Rightarrow> v)"
| "js_get v k = Inr JUndefined"

text \<open>Optional chaining \<^verbatim>\<open>v?.k\<close>: \<^verbatim>\<open>undefined\<close> when \<^verbatim>\<open>v\<close> is nullish.\<close>

fun js_get_opt :: "jsval \<Rightarrow> string \<Rightarrow> jsval" where
  "js_get_opt JUndefined k = JUndefined"
| "js_get_opt JNull k = JUndefined"
| "js_get_opt (JObj kvs) k = (case map_of kvs k of None \<Rightarrow> JUndefined | Some v \<Rightarrow> v)"
| "js_get_opt v k = JUndefined"

text \<open>
  Strict equality \<^verbatim>\<open>===\<close>. Primitives compare by value. Arrays and objects compare
  by reference, and the two sides of every comparison in the program come from
  different parses (a response body against the request body or a literal), so they
  are never the same reference.
\<close>

fun js_strict_eq :: "jsval \<Rightarrow> jsval \<Rightarrow> bool" where
  "js_strict_eq (JArr xs) w = False"
| "js_strict_eq (JObj kvs) w = False"
| "js_strict_eq v w = (v = w)"

fun js_truthy :: "jsval \<Rightarrow> bool" where
  "js_truthy JUndefined = False"
| "js_truthy JNull = False"
| "js_truthy (JBool b) = b"
| "js_truthy (JNum n) = (n \<noteq> ''0'' \<and> n \<noteq> ''NaN'')"
| "js_truthy (JStr s) = (s \<noteq> [])"
| "js_truthy v = True"

text \<open>
  String conversion, as in a template literal or \<^verbatim>\<open>'...' + v\<close>. A parsed object has
  no callable property of its own, so its conversion goes through the inherited
  \<^verbatim>\<open>toString\<close> and yields \<^verbatim>\<open>[object Object]\<close>, unless the object has an own property
  named \<^verbatim>\<open>toString\<close>: that hides the inherited method, neither it nor \<^verbatim>\<open>valueOf\<close>
  yields a primitive, and the conversion throws a TypeError. An array is joined with
  commas from the conversions of its elements (the empty string for \<^verbatim>\<open>undefined\<close> and
  \<^verbatim>\<open>null\<close>), and throws where one of them throws.
\<close>

fun join_str :: "string \<Rightarrow> string list \<Rightarrow> string" where
  "join_str sep [] = []"
| "join_str sep [x] = x"
| "join_str sep (x # y # ys) = x @ sep @ join_str sep (y # ys)"

fun first_error :: "(js_error + 'a) list \<Rightarrow> js_error + 'a list" where
  "first_error [] = Inr []"
| "first_error (Inl e # rs) = Inl e"
| "first_error (Inr v # rs) = (case first_error rs of Inl e \<Rightarrow> Inl e | Inr vs \<Rightarrow> Inr (v # vs))"

definition cannot_convert :: js_error where
  "cannot_convert = TypeError ''Cannot convert object to primitive value''"

fun js_to_string :: "jsval \<Rightarrow> js_error + string" where
  "js_to_string JUndefined = Inr ''undefined''"
| "js_to_string JNull = Inr ''null''"
| "js_to_string (JBool b) = Inr (if b then ''true'' else ''false'')"
| "js_to_string (JNum n) = Inr n"
| "js_to_string (JStr s) = Inr s"
| "js_to_string (JArr xs) =
     (case first_error
             (map (\<lambda>x. if x = JUndefined \<or> x = JNull then Inr [] else js_to_string x) xs) of
        Inl e \<Rightarrow> Inl e
      | Inr ss \<Rightarrow> Inr (join_str '','' ss))"
| "js_to_string (JObj kvs) =
     (case map_of kvs ''toString'' of
        None \<Rightarrow> Inr ''[object Object]''
      | Some v \<Rightarrow> Inl cannot_convert)"

text \<open>The decimal rendering of a status code.\<close>

fun show_nat :: "nat \<Rightarrow> string" where
  "show_nat n =
     (if n < 10 then [''0123456789'' ! n]
      else show_nat (n div 10) @ [''0123456789'' ! (n mod 10)])"

text \<open>\<^verbatim>\<open>s.split(c)\<close> for a one-character separator, and \<^verbatim>\<open>parts.join('')\<close>.\<close>

fun split_str :: "char \<Rightarrow> string \<Rightarrow> string list" where
  "split_str c [] = [[]]"
| "split_str c (x # xs) =
     (if x = c then [] # split_str c xs
      else (case split_str c xs of
              [] \<Rightarrow> [[x]]
            | p # ps \<Rightarrow> (x # p) # ps))"

section \<open>The world of one request\<close>

text \<open>
  Everything the handlers do beyond computing values is recorded in a state: the
  outbound HTTP calls made through axios, in order; the calls to the logger, in order;
  and the Express response object \<^verbatim>\<open>res\<close>.
\<close>

record call =
  c_method :: string
  c_url :: string
  c_data :: jsval

datatype level = Debug | Info | Err

datatype log_arg = Str string | StackOf js_error

text \<open>
  What was handed to Express to send: a string (sent as it is), a value to be sent as
  JSON, or a number given to \<^verbatim>\<open>res.send\<close> alone. \<open>NotFoundPage\<close> is the page of
  Express's own final handler.
\<close>

datatype body = Text string | Json jsval | OfNumber int | NotFoundPage

record response =
  statusCode :: int
  headers :: "string \<rightharpoonup> string"
  sent :: "body option"

record world =
  calls :: "call list"
  logs :: "(level \<times> log_arg) list"
  res :: response

text \<open>
  What a downstream service answers is not decided by this program: it is a parameter.
  The answer may depend on the calls made so far. The configuration (the two base URLs)
  and the value that the one call of \<^verbatim>\<open>uuidV4()\<close> returns are parameters as well.
\<close>

datatype axios_result =
    Resolved axios_response
  | Rejected string "axios_response option"

record env =
  userURL :: string
  tenantURL :: string
  net :: "call list \<Rightarrow> call \<Rightarrow> axios_result"
  uuidV4 :: string

definition registerTenantUserURL :: "env \<Rightarrow> string" where
  "registerTenantUserURL e = userURL e @ ''/system''"

definition deleteInfraUrl :: "env \<Rightarrow> string" where
  "deleteInfraUrl e = userURL e @ ''/tenants''"

definition deleteTableUrl :: "env \<Rightarrow> string" where
  "deleteTableUrl e = userURL e @ ''/tables''"

subsection \<open>Promises\<close>

text \<open>
  A promise chain runs to completion within the request. An expression that yields a
  promise is a computation on the world with one of three outcomes: the promise is
  fulfilled (\<open>Inr\<close>); the promise is rejected (\<open>Inl (Rejects e)\<close>); or the expression
  throws before there is a promise (\<open>Inl (Throws e)\<close>), as a function does that throws
  in its synchronous part.

  \<^verbatim>\<open>p.then(f)\<close> runs \<open>f\<close> on fulfilment and passes a rejection on; \<^verbatim>\<open>p.catch(g)\<close> runs
  \<open>g\<close> on rejection, whether \<open>p\<close>'s origin rejected or a handler before it threw. A
  handler that returns fulfils the promise of \<^verbatim>\<open>then\<close> or \<^verbatim>\<open>catch\<close>; one that throws,
  or that calls a function which throws, rejects it (\<open>as_rejection\<close>). Where \<open>p\<close> itself
  throws, neither \<^verbatim>\<open>then\<close> nor \<^verbatim>\<open>catch\<close> is ever called: the whole expression throws.
\<close>

datatype failure = Throws js_error | Rejects js_error

type_synonym 'a promise = "world \<Rightarrow> (failure + 'a) \<times> world"

definition resolve :: "'a \<Rightarrow> 'a promise" where
  "resolve v w = (Inr v, w)"

definition throw :: "js_error \<Rightarrow> 'a promise" where
  "throw e w = (Inl (Throws e), w)"

definition as_rejection :: "(failure + 'a) \<times> world \<Rightarrow> (failure + 'a) \<times> world" where
  "as_rejection r =
     (case r of
        (Inl (Throws e), w) \<Rightarrow> (Inl (Rejects e), w)
      | (Inl (Rejects e), w) \<Rightarrow> (Inl (Rejects e), w)
      | (Inr v, w) \<Rightarrow> (Inr v, w))"

definition then_p :: "'a promise \<Rightarrow> ('a \<Rightarrow> 'b promise) \<Rightarrow> 'b promise" where
  "then_p p f w =
     (case p w of
        (Inl x, w') \<Rightarrow> (Inl x, w')
      | (Inr v, w') \<Rightarrow> as_rejection (f v w'))"

definition catch_p :: "'a promise \<Rightarrow> (js_error \<Rightarrow> 'a promise) \<Rightarrow> 'a promise" where
  "catch_p p g w =
     (case p w of
        (Inl (Throws e), w') \<Rightarrow> (Inl (Throws e), w')
      | (Inl (Rejects e), w') \<Rightarrow> as_rejection (g e w')
      | (Inr v, w') \<Rightarrow> (Inr v, w'))"

text \<open>
  A template literal or a string concatenation with a value in it: it throws where the
  conversion of the value throws, and goes on with the string otherwise.
\<close>

definition template :: "jsval \<Rightarrow> (string \<Rightarrow> 'a promise) \<Rightarrow> 'a promise" where
  "template v k w = (case js_to_string v of Inl te \<Rightarrow> (Inl (Throws te), w) | Inr s \<Rightarrow> k s w)"

subsection \<open>axios and the logger\<close>

text \<open>
  An axios call is recorded and answered by the environment: a response fulfils the
  promise, anything else rejects it with an error that carries the response if there was
  one. The two axios-logger interceptors print to the console and pass their argument on;
  they are left out. The logger calls are recorded whatever the configured log level.
\<close>

definition axios_request :: "env \<Rightarrow> call \<Rightarrow> axios_response promise" where
  "axios_request e c w =
     (let w' = w\<lparr>calls := calls w @ [c]\<rparr> in
      case net e (calls w) c of
        Resolved r \<Rightarrow> (Inr r, w')
      | Rejected m r \<Rightarrow> (Inl (Rejects (AxiosError m r)), w'))"

definition axios_get :: "env \<Rightarrow> string \<Rightarrow> axios_response promise" where
  "axios_get e u = axios_request e \<lparr>c_method = ''GET'', c_url = u, c_data = JUndefined\<rparr>"

definition axios_post :: "env \<Rightarrow> string \<Rightarrow> jsval \<Rightarrow> axios_response promise" where
  "axios_post e u d = axios_request e \<lparr>c_method = ''POST'', c_url = u, c_data = d\<rparr>"

definition axios_delete :: "env \<Rightarrow> string \<Rightarrow> axios_response promise" where
  "axios_delete e u = axios_request e \<lparr>c_method = ''DELETE'', c_url = u, c_data = JUndefined\<rparr>"

definition logger :: "level \<Rightarrow> log_arg \<Rightarrow> world \<Rightarrow> world" where
  "logger l a w = w\<lparr>logs := logs w @ [(l, a)]\<rparr>"

subsection \<open>The Express response\<close>

text \<open>
  \<^verbatim>\<open>res.header\<close>, \<^verbatim>\<open>res.status\<close>, \<^verbatim>\<open>res.json\<close> and \<^verbatim>\<open>res.send\<close>: what the program
  hands to Express is recorded. \<^verbatim>\<open>res.send\<close> of a string sends it as the body.
  \<^verbatim>\<open>res.send\<close> of a number alone is recorded as such (\<open>OfNumber\<close>): Express 4 takes the
  number for the status code and sends the status message of that code as the body, and
  a later Express sends the number as JSON; the body is not empty in either. The status
  is set as in Express 4; for the one call of the program, \<^verbatim>\<open>res.send(200)\<close> on a response
  that no handler has touched, it is 200 already.
\<close>

definition res_header :: "string \<Rightarrow> string \<Rightarrow> world \<Rightarrow> world" where
  "res_header k v w = w\<lparr>res := (res w)\<lparr>headers := (headers (res w))(k \<mapsto> v)\<rparr>\<rparr>"

definition res_status :: "int \<Rightarrow> world \<Rightarrow> world" where
  "res_status c w = w\<lparr>res := (res w)\<lparr>statusCode := c\<rparr>\<rparr>"

definition res_json :: "jsval \<Rightarrow> world \<Rightarrow> world" where
  "res_json v w = w\<lparr>res := (res w)\<lparr>sent := Some (Json v)\<rparr>\<rparr>"

definition res_send :: "string \<Rightarrow> world \<Rightarrow> world" where
  "res_send s w = w\<lparr>res := (res w)\<lparr>sent := Some (Text s)\<rparr>\<rparr>"


section \<open>The program\<close>

text \<open>
  The tenant object is \<^verbatim>\<open>req.body\<close>: the properties the program reads or writes are
  the fields of a record, each holding any value (\<^verbatim>\<open>undefined\<close> when the body does not
  have the property). \<open>tid\<close> is the property \<^verbatim>\<open>id\<close>.
\<close>

record tenant =
  tid :: jsval
  companyName :: jsval
  accountName :: jsval
  ownerName :: jsval
  tier :: jsval
  email :: jsval
  userName :: jsval
  role :: jsval
  firstName :: jsval
  lastName :: jsval
  UserPoolId :: jsval
  IdentityPoolId :: jsval
  systemAdminRole :: jsval
  systemSupportRole :: jsval
  trustRole :: jsval
  systemAdminPolicy :: jsval
  systemSupportPolicy :: jsval

subsection \<open>The CORS middleware and the error middleware\<close>

text \<open>
  A request: its method; what the two body parsers of lines 43 to 46 made of it, which
  is either an error that they pass to \<^verbatim>\<open>next\<close> (\<open>req_parse = Some err\<close>, for a malformed
  JSON body a \<^verbatim>\<open>SyntaxError\<close>) or the parsed \<open>req_body\<close>.
\<close>

record request =
  req_method :: string
  req_parse :: "js_error option"
  req_body :: tenant


definition error_middleware :: "js_error \<Rightarrow> world \<Rightarrow> world" where
  "error_middleware err w =
     (if err_name err = ''BadRequestError''
      then res_json (JObj [(''error'', JStr (err_message err))]) (res_status (err_httpStatus err) w)
      else logger Err (StackOf err) (res_send ''Server Error'' (res_status 500 w)))"

subsection \<open>The create workflow\<close>

text \<open>
  \<open>verifyUserDoesntExist\<close> converts \<^verbatim>\<open>tenant.userName\<close> to a string for its log line
  (line 125) before it calls axios: where that throws, the function throws and no call is
  made. The later conversions of the same value (lines 128, 134, 141, 143) yield the same
  string \<open>name\<close>. \<^verbatim>\<open>err.response.body\<close> is no property of an axios response, so it
  renders as \<^verbatim>\<open>undefined\<close>.
\<close>

definition verifyUserDoesntExist :: "env \<Rightarrow> tenant \<Rightarrow> unit promise" where
  "verifyUserDoesntExist e tenant =
     template (userName tenant) (\<lambda>name w0.
       let w = logger Debug (Str (''Checking tenant exists: '' @ name)) w0;
           url = userURL e @ ''/pool/'' @ name
       in catch_p
            (then_p (axios_get e url)
               (\<lambda>r. case js_get (resp_data r) ''userName'' of
                      Inl te \<Rightarrow> throw te
                    | Inr u \<Rightarrow>
                        if js_strict_eq u (userName tenant)
                        then throw (BadRequestError (''Admin user '' @ name @ '' already exists''))
                        else resolve ()))
            (\<lambda>err.
               if js_strict_eq
                    (case err_response err of
                       None \<Rightarrow> JUndefined
                     | Some r \<Rightarrow> js_get_opt (resp_data r) ''Error'')
                    (JStr ''User not found'')
               then resolve ()
               else if js_truthy (case err_response err of None \<Rightarrow> JUndefined | Some r \<Rightarrow> resp_data r)
               then throw (Error
                      (''Failed to check if tenant '' @ name @ '' exists. Status: ''
                       @ (case err_response err of
                            None \<Rightarrow> ''undefined''
                          | Some r \<Rightarrow> show_nat (resp_status r))
                       @ '' Body: undefined''))
               else throw (Error
                      (''Failed to check if tenant '' @ name @ '' exists. Error: ''
                       @ err_message err)))
            w)"

text \<open>The body of the registration request, and the then-handler of the registration.\<close>

definition registration_body :: "tenant \<Rightarrow> jsval" where
  "registration_body tenant =
     JObj [(''tenant_id'', tid tenant),
           (''companyName'', companyName tenant),
           (''accountName'', accountName tenant),
           (''ownerName'', ownerName tenant),
           (''tier'', tier tenant),
           (''email'', email tenant),
           (''userName'', userName tenant),
           (''role'', role tenant),
           (''firstName'', firstName tenant),
           (''lastName'', lastName tenant)]"

definition bind_e :: "js_error + 'a \<Rightarrow> ('a \<Rightarrow> js_error + 'b) \<Rightarrow> js_error + 'b" where
  "bind_e x f = (case x of Inl e \<Rightarrow> Inl e | Inr v \<Rightarrow> f v)"

definition attach_infra :: "tenant \<Rightarrow> jsval \<Rightarrow> js_error + tenant" where
  "attach_infra tenant d =
     bind_e (js_get d ''pool'') (\<lambda>pool.
     bind_e (js_get d ''identityPool'') (\<lambda>identityPool.
     bind_e (js_get d ''role'') (\<lambda>role'.
     bind_e (js_get d ''policy'') (\<lambda>policy.
     bind_e (js_get pool ''UserPool'') (\<lambda>userPool.
     bind_e (js_get userPool ''Id'') (\<lambda>v1.
     bind_e (js_get identityPool ''IdentityPoolId'') (\<lambda>v2.
     bind_e (js_get role' ''systemAdminRole'') (\<lambda>v3.
     bind_e (js_get role' ''systemSupportRole'') (\<lambda>v4.
     bind_e (js_get role' ''trustRole'') (\<lambda>v5.
     bind_e (js_get policy ''systemAdminPolicy'') (\<lambda>v6.
     bind_e (js_get policy ''systemSupportPolicy'') (\<lambda>v7.
       Inr (tenant\<lparr>UserPoolId := v1, IdentityPoolId := v2,
                    systemAdminRole := v3, systemSupportRole := v4, trustRole := v5,
                    systemAdminPolicy := v6, systemSupportPolicy := v7\<rparr>)))))))))))))"

definition registerTenantAdmin :: "env \<Rightarrow> tenant \<Rightarrow> tenant promise" where
  "registerTenantAdmin e tenant =
     template (userName tenant) (\<lambda>name w0.
       let w = logger Debug (Str (''Registering tenant admin: '' @ name)) w0
       in catch_p
            (then_p (axios_post e (registerTenantUserURL e) (registration_body tenant))
               (\<lambda>r. case attach_infra tenant (resp_data r) of
                      Inl te \<Rightarrow> throw te
                    | Inr tenant' \<Rightarrow> resolve tenant'))
            (\<lambda>err. throw (Error (''Error registering new system admin user: '' @ err_message err)))
            w)"

definition tenant_record :: "tenant \<Rightarrow> jsval" where
  "tenant_record tenant =
     JObj [(''id'', tid tenant),
           (''companyName'', companyName tenant),
           (''accountName'', accountName tenant),
           (''ownerName'', ownerName tenant),
           (''tier'', tier tenant),
           (''email'', email tenant),
           (''status'', JStr ''Active''),
           (''UserPoolId'', UserPoolId tenant),
           (''IdentityPoolId'', IdentityPoolId tenant),
           (''systemAdminRole'', systemAdminRole tenant),
           (''systemSupportRole'', systemSupportRole tenant),
           (''trustRole'', trustRole tenant),
           (''systemAdminPolicy'', systemAdminPolicy tenant),
           (''systemSupportPolicy'', systemSupportPolicy tenant),
           (''userName'', userName tenant)]"

definition saveTenantData :: "env \<Rightarrow> tenant \<Rightarrow> axios_response promise" where
  "saveTenantData e tenant =
     template (tid tenant) (\<lambda>i w0.
       let w = logger Info (Str (''saveTenantData saving '' @ i)) w0
       in catch_p
            (axios_post e (tenantURL e) (tenant_record tenant))
            (\<lambda>err. throw (Error (''Failed to save tenant data.  Error: '' @ err_message err)))
            w)"

text \<open>
  The tenant id: \<^verbatim>\<open>'SYSADMIN' + uuidV4()\<close>, logged, then
  \<^verbatim>\<open>tenant.id.split('-').join('')\<close>.
\<close>

definition raw_tenant_id :: "env \<Rightarrow> string" where
  "raw_tenant_id e = ''SYSADMIN'' @ uuidV4 e"

definition tenant_id :: "env \<Rightarrow> string" where
  "tenant_id e = concat (split_str CHR ''-'' (raw_tenant_id e))"

text \<open>
  Lines 72 to 75. \<open>verifyUserDoesntExist\<close> is called by the handler itself, the two
  other functions from inside \<^verbatim>\<open>then\<close> handlers.
\<close>

definition create_chain :: "env \<Rightarrow> tenant \<Rightarrow> unit promise" where
  "create_chain e tenant =
     then_p
       (then_p
          (then_p (verifyUserDoesntExist e tenant)
             (\<lambda>_. registerTenantAdmin e tenant))
          (\<lambda>registeredTenant. saveTenantData e registeredTenant))
       (\<lambda>_ w. template (tid tenant)
                (\<lambda>i w'. resolve () (res_send (''System admin user '' @ i @ '' registered'') w'))
                (res_status 200 w))"

text \<open>
  The handler of \<^verbatim>\<open>POST /sys/admin\<close> is an async function whose promise Express does
  not look at. Where line 72 throws (the chain has no promise then, so its \<^verbatim>\<open>catch\<close> is
  never reached), the function ends there: nothing is sent.
\<close>

definition post_sys_admin :: "env \<Rightarrow> request \<Rightarrow> world \<Rightarrow> world" where
  "post_sys_admin e req w0 =
     (let w = logger Debug (Str (''Creating system admin user, tenant id: '' @ raw_tenant_id e)) w0;
          tenant = (req_body req)\<lparr>tid := JStr (tenant_id e)\<rparr>
      in snd (catch_p (create_chain e tenant)
                (\<lambda>err w'. resolve () (error_middleware err w')) w))"

subsection \<open>The destroy workflow and the health check\<close>

definition deleteInfra :: "env \<Rightarrow> unit promise" where
  "deleteInfra e =
     catch_p
       (then_p (axios_delete e (deleteInfraUrl e))
          (\<lambda>r w. resolve () (logger Info (Str ''Removed Infrastructure'') w)))
       (\<lambda>err w. resolve ()
          (logger Info (Str (''Error Removing Infrastructure: '' @ err_message err)) w))"

definition delete_sys_admin :: "env \<Rightarrow> world \<Rightarrow> world" where
  "delete_sys_admin e w =
     snd (catch_p
            (then_p
               (then_p (deleteInfra e)
                  (\<lambda>_ w'. resolve () (logger Debug (Str ''Delete Infra'') w')))
               (\<lambda>_ w'. resolve ()
                  (res_send ''System Infrastructure & Tables removed''
                     (res_status 200
                        (logger Debug (Str ''System Infrastructure & Tables removed'') w')))))
            (\<lambda>error w'. resolve ()
               (res_send '' Error removing system''
                  (res_status 400
                     (logger Err (Str ''Error removing system'') w'))))
            w)"


subsection \<open>The application\<close>



definition fresh :: world where
  "fresh = \<lparr>calls = [], logs = [],
            res = \<lparr>statusCode = 200, headers = Map.empty, sent = None\<rparr>\<rparr>"


section \<open>Vocabulary for the properties\<close>

text \<open>
  A value converts when its string conversion does not throw; \<open>string_of\<close> is the string
  it converts to.
\<close>

definition converts :: "jsval \<Rightarrow> bool" where
  "converts v = (case js_to_string v of Inl te \<Rightarrow> False | Inr s \<Rightarrow> True)"

definition string_of :: "jsval \<Rightarrow> string" where
  "string_of v = (case js_to_string v of Inl te \<Rightarrow> [] | Inr s \<Rightarrow> s)"

text \<open>The outbound calls of the workflows.\<close>

definition check_call :: "env \<Rightarrow> tenant \<Rightarrow> call" where
  "check_call e t =
     \<lparr>c_method = ''GET'', c_url = userURL e @ ''/pool/'' @ string_of (userName t),
      c_data = JUndefined\<rparr>"

definition register_call :: "env \<Rightarrow> tenant \<Rightarrow> call" where
  "register_call e t =
     \<lparr>c_method = ''POST'', c_url = registerTenantUserURL e, c_data = registration_body t\<rparr>"

definition persist_call :: "env \<Rightarrow> tenant \<Rightarrow> call" where
  "persist_call e t = \<lparr>c_method = ''POST'', c_url = tenantURL e, c_data = tenant_record t\<rparr>"

definition delete_call :: "env \<Rightarrow> call" where
  "delete_call e = \<lparr>c_method = ''DELETE'', c_url = deleteInfraUrl e, c_data = JUndefined\<rparr>"

text \<open>
  The tenant that \<^verbatim>\<open>POST /sys/admin\<close> works on (the request body with the generated
  id) and the world in which its promise chain starts.
\<close>

definition created_tenant :: "env \<Rightarrow> request \<Rightarrow> tenant" where
  "created_tenant e req = (req_body req)\<lparr>tid := JStr (tenant_id e)\<rparr>"

definition chain_start :: "env \<Rightarrow> world \<Rightarrow> world" where
  "chain_start e w = logger Debug (Str (''Creating system admin user, tenant id: '' @ raw_tenant_id e)) w"

text \<open>
  \<open>field_at v [k1, k2]\<close> is the value of \<^verbatim>\<open>v?.k1?.k2\<close>. Where it is a string, every
  value on the way is an object, so it is the value of \<^verbatim>\<open>v.k1.k2\<close> as well.
\<close>

definition nullish :: "jsval \<Rightarrow> bool" where
  "nullish v = (v = JUndefined \<or> v = JNull)"

definition field_at :: "jsval \<Rightarrow> string list \<Rightarrow> jsval" where
  "field_at v ks = foldl js_get_opt v ks"

text \<open>
  What the then-handler of the registration needs of the response in order not to throw:
  the values it reads properties of are neither \<^verbatim>\<open>undefined\<close> nor \<^verbatim>\<open>null\<close>. It asks
  nothing of the seven identifiers that it reads from them.
\<close>

definition infra_containers_present :: "jsval \<Rightarrow> bool" where
  "infra_containers_present d =
     (\<not> nullish d \<and> \<not> nullish (field_at d [''pool''])
      \<and> \<not> nullish (field_at d [''pool'', ''UserPool''])
      \<and> \<not> nullish (field_at d [''identityPool'']) \<and> \<not> nullish (field_at d [''role''])
      \<and> \<not> nullish (field_at d [''policy'']))"

definition with_infra :: "tenant \<Rightarrow> jsval \<Rightarrow> tenant" where
  "with_infra t d =
     t\<lparr>UserPoolId := field_at d [''pool'', ''UserPool'', ''Id''],
       IdentityPoolId := field_at d [''identityPool'', ''IdentityPoolId''],
       systemAdminRole := field_at d [''role'', ''systemAdminRole''],
       systemSupportRole := field_at d [''role'', ''systemSupportRole''],
       trustRole := field_at d [''role'', ''trustRole''],
       systemAdminPolicy := field_at d [''policy'', ''systemAdminPolicy''],
       systemSupportPolicy := field_at d [''policy'', ''systemSupportPolicy'']\<rparr>"

text \<open>
  The answers to the existence check on which the promise of \<open>verifyUserDoesntExist\<close> is
  fulfilled (lemma \<open>verify_fst_iff\<close>): a response without the requested user name, or a
  rejection whose body says \<^verbatim>\<open>User not found\<close>.
\<close>

definition check_passes :: "tenant \<Rightarrow> axios_result \<Rightarrow> bool" where
  "check_passes t a =
     (case a of
        Resolved r \<Rightarrow>
          \<not> nullish (resp_data r) \<and> \<not> js_strict_eq (field_at (resp_data r) [''userName'']) (userName t)
      | Rejected m ro \<Rightarrow>
          (case ro of
             None \<Rightarrow> False
           | Some r \<Rightarrow> field_at (resp_data r) [''Error''] = JStr ''User not found''))"

section \<open>Concrete requests and downstream services\<close>

definition alice :: tenant where
  "alice = \<lparr>tid = JUndefined, companyName = JStr ''Acme'', accountName = JStr ''acme'',
            ownerName = JStr ''Alice'', tier = JStr ''Free'', email = JStr ''alice@acme.test'',
            userName = JStr ''alice'', role = JStr ''SystemAdmin'', firstName = JStr ''Alice'',
            lastName = JStr ''Liddell'', UserPoolId = JUndefined, IdentityPoolId = JUndefined,
            systemAdminRole = JUndefined, systemSupportRole = JUndefined, trustRole = JUndefined,
            systemAdminPolicy = JUndefined, systemSupportPolicy = JUndefined\<rparr>"

definition post_alice :: request where
  "post_alice = \<lparr>req_method = ''POST'', req_parse = None, req_body = alice\<rparr>"

text \<open>A body whose \<^verbatim>\<open>userName\<close> is the object \<^verbatim>\<open>{"toString": 1}\<close>.\<close>

definition post_unprintable :: request where
  "post_unprintable =
     \<lparr>req_method = ''POST'', req_parse = None,
      req_body = alice\<lparr>userName := JObj [(''toString'', JNum ''1'')]\<rparr>\<rparr>"




definition not_found_response :: axios_response where
  "not_found_response =
     \<lparr>resp_status = 400, resp_data = JObj [(''Error'', JStr ''User not found'')]\<rparr>"

definition infra_response :: axios_response where
  "infra_response =
     \<lparr>resp_status = 200,
      resp_data = JObj
        [(''pool'', JObj [(''UserPool'', JObj [(''Id'', JStr ''P1'')])]),
         (''identityPool'', JObj [(''IdentityPoolId'', JStr ''I1'')]),
         (''role'', JObj [(''systemAdminRole'', JStr ''R1''), (''systemSupportRole'', JStr ''R2''),
                          (''trustRole'', JStr ''R3'')]),
         (''policy'', JObj [(''systemAdminPolicy'', JStr ''PO1''),
                            (''systemSupportPolicy'', JStr ''PO2'')])]\<rparr>"

text \<open>
  A registration response with the four containers and none of the seven identifiers:
  \<^verbatim>\<open>{pool: {UserPool: 5}, identityPool: 5, role: true, policy: "x"}\<close>.
\<close>

definition bare_response :: axios_response where
  "bare_response =
     \<lparr>resp_status = 200,
      resp_data = JObj
        [(''pool'', JObj [(''UserPool'', JNum ''5'')]),
         (''identityPool'', JNum ''5''),
         (''role'', JBool True),
         (''policy'', JStr ''x'')]\<rparr>"

text \<open>
  Downstream services that know no user and answer every other call with success, the
  registration with \<open>infra_response\<close> or with \<open>bare_response\<close>; that already have the
  user \<^verbatim>\<open>alice\<close>; and that fail every call at the transport level.
\<close>

definition net_new_user :: "call list \<Rightarrow> call \<Rightarrow> axios_result" where
  "net_new_user h c =
     (if c_method c = ''GET''
      then Rejected ''Request failed with status code 400'' (Some not_found_response)
      else if c_method c = ''POST'' \<and> c_url c = ''http://user/system'' then Resolved infra_response
      else Resolved \<lparr>resp_status = 200, resp_data = JObj []\<rparr>)"

definition net_bare :: "call list \<Rightarrow> call \<Rightarrow> axios_result" where
  "net_bare h c =
     (if c_method c = ''GET''
      then Rejected ''Request failed with status code 400'' (Some not_found_response)
      else if c_method c = ''POST'' \<and> c_url c = ''http://user/system'' then Resolved bare_response
      else Resolved \<lparr>resp_status = 200, resp_data = JObj []\<rparr>)"

definition net_existing_user :: "call list \<Rightarrow> call \<Rightarrow> axios_result" where
  "net_existing_user h c =
     (if c_method c = ''GET''
      then Resolved \<lparr>resp_status = 200, resp_data = JObj [(''userName'', JStr ''alice'')]\<rparr>
      else Resolved \<lparr>resp_status = 200, resp_data = JObj []\<rparr>)"

definition net_down :: "call list \<Rightarrow> call \<Rightarrow> axios_result" where
  "net_down h c = Rejected ''connect ECONNREFUSED'' None"

definition env_of :: "(call list \<Rightarrow> call \<Rightarrow> axios_result) \<Rightarrow> env" where
  "env_of n = \<lparr>userURL = ''http://user'', tenantURL = ''http://tenant'', net = n,
               uuidV4 = ''110ec58a-a0f2-4ac4-8393-c866d813b8d1''\<rparr>"

section \<open>Basic facts\<close>

lemmas promise_defs = then_p_def catch_p_def resolve_def throw_def as_rejection_def template_def

lemma snd_as_rejection: "snd (as_rejection r) = snd r"
  by (simp add: as_rejection_def split: prod.splits sum.splits failure.splits)

lemma as_rejection_Inr: "fst r = Inr v \<Longrightarrow> as_rejection r = r"
  by (cases r) (simp add: as_rejection_def)

lemma as_rejection_Rejects: "fst r = Inl (Rejects x) \<Longrightarrow> as_rejection r = r"
  by (cases r) (simp add: as_rejection_def)

lemma as_rejection_Throws: "fst r = Inl (Throws x) \<Longrightarrow> as_rejection r = (Inl (Rejects x), snd r)"
  by (cases r) (simp add: as_rejection_def)

lemma then_p_Inl: "fst (p w) = Inl x \<Longrightarrow> then_p p f w = (Inl x, snd (p w))"
  by (cases "p w") (simp add: then_p_def)

lemma then_p_Inr: "fst (p w) = Inr v \<Longrightarrow> then_p p f w = as_rejection (f v (snd (p w)))"
  by (cases "p w") (simp add: then_p_def)

lemma then_p_then_p_Inr:
  "fst (p w) = Inr v \<Longrightarrow> then_p (then_p p f) g w = then_p (\<lambda>w. as_rejection (f v w)) g (snd (p w))"
  by (cases "p w") (simp add: then_p_def)

lemma catch_p_Throws: "fst (p w) = Inl (Throws x) \<Longrightarrow> catch_p p g w = (Inl (Throws x), snd (p w))"
  by (cases "p w") (simp add: catch_p_def)

lemma catch_p_Rejects: "fst (p w) = Inl (Rejects x) \<Longrightarrow> catch_p p g w = as_rejection (g x (snd (p w)))"
  by (cases "p w") (simp add: catch_p_def)

lemma catch_p_Inr: "fst (p w) = Inr v \<Longrightarrow> catch_p p g w = (Inr v, snd (p w))"
  by (cases "p w") (simp add: catch_p_def)

lemma converts_string_of: "converts v \<Longrightarrow> js_to_string v = Inr (string_of v)"
  by (simp add: converts_def string_of_def split: sum.splits)

lemma not_converts: "\<not> converts v \<Longrightarrow> \<exists>te. js_to_string v = Inl te"
  by (simp add: converts_def split: sum.splits)

lemma converts_JStr: "converts (JStr s)" "string_of (JStr s) = s"
  by (simp_all add: converts_def string_of_def)

lemma template_converts: "converts v \<Longrightarrow> template v k w = k (string_of v) w"
  by (simp add: template_def converts_string_of)

lemma template_throws: "\<not> converts v \<Longrightarrow> \<exists>te. template v k w = (Inl (Throws te), w)"
  by (auto simp add: template_def dest: not_converts)

lemma js_get_cases:
  "js_get v k = (if v = JUndefined then Inl (cannot_read ''undefined'' k)
                 else if v = JNull then Inl (cannot_read ''null'' k)
                 else Inr (js_get_opt v k))"
  by (cases v) simp_all

lemma js_strict_eq_JStr: "js_strict_eq v (JStr s) \<longleftrightarrow> v = JStr s"
  by (cases v) auto

lemma err_response_cannot_read: "err_response (cannot_read a k) = None"
  by (simp add: cannot_read_def)

lemma js_get_opt_nullish: "nullish v \<Longrightarrow> js_get_opt v k = JUndefined"
  by (cases v) (simp_all add: nullish_def)

lemma parent_not_nullish: "\<not> nullish (js_get_opt v k) \<Longrightarrow> \<not> nullish v"
  using js_get_opt_nullish [of v k] by (auto simp add: nullish_def)

lemma field_JStr_parent: "js_get_opt v k = JStr s \<Longrightarrow> \<not> nullish v"
  using js_get_opt_nullish [of v k] by auto

subsection \<open>The tenant id\<close>

lemma split_str_nonempty: "split_str c s \<noteq> []"
  by (induction s) (auto split: list.splits)

lemma concat_split_str: "concat (split_str c s) = filter (\<lambda>x. x \<noteq> c) s"
  by (induction s) (auto split: list.splits simp: split_str_nonempty)

lemma tenant_id_eq: "tenant_id e = ''SYSADMIN'' @ filter (\<lambda>x. x \<noteq> CHR ''-'') (uuidV4 e)"
  by (simp add: tenant_id_def raw_tenant_id_def concat_split_str del: split_str.simps)

subsection \<open>The registration response\<close>

lemma attach_infra_ok:
  "infra_containers_present d \<Longrightarrow> attach_infra t d = Inr (with_infra t d)"
  by (simp add: infra_containers_present_def nullish_def field_at_def attach_infra_def bind_e_def
      js_get_cases with_infra_def)

lemma attach_infra_fail:
  "\<not> infra_containers_present d \<Longrightarrow> \<exists>m. attach_infra t d = Inl (TypeError m)"
  by (auto simp add: infra_containers_present_def nullish_def field_at_def attach_infra_def bind_e_def
      js_get_cases cannot_read_def)

lemma attach_infra_iff:
  "attach_infra t d = Inr t' \<longleftrightarrow> infra_containers_present d \<and> t' = with_infra t d"
  using attach_infra_ok [of d t] attach_infra_fail [of d t]
  by (cases "infra_containers_present d") auto

lemma infra_containers_from_fields:
  assumes "field_at d [''pool'', ''UserPool'', ''Id''] = JStr p"
    and "field_at d [''identityPool'', ''IdentityPoolId''] = JStr i"
    and "field_at d [''role'', ''systemAdminRole''] = JStr ro"
    and "field_at d [''policy'', ''systemAdminPolicy''] = JStr po"
  shows "infra_containers_present d"
proof -
  have a: "\<not> nullish (js_get_opt (js_get_opt d ''pool'') ''UserPool'')"
    using assms(1) unfolding field_at_def foldl.simps by (rule field_JStr_parent)
  have b: "\<not> nullish (js_get_opt d ''identityPool'')"
    using assms(2) unfolding field_at_def foldl.simps by (rule field_JStr_parent)
  have c: "\<not> nullish (js_get_opt d ''role'')"
    using assms(3) unfolding field_at_def foldl.simps by (rule field_JStr_parent)
  have dd: "\<not> nullish (js_get_opt d ''policy'')"
    using assms(4) unfolding field_at_def foldl.simps by (rule field_JStr_parent)
  have e: "\<not> nullish (js_get_opt d ''pool'')"
    using a by (rule parent_not_nullish)
  have f: "\<not> nullish d"
    using e by (rule parent_not_nullish)
  from a b c dd e f show ?thesis
    unfolding infra_containers_present_def field_at_def foldl.simps by blast
qed

lemma tenant_record_fields:
  "js_get (tenant_record t) ''UserPoolId'' = Inr (UserPoolId t)"
  "js_get (tenant_record t) ''IdentityPoolId'' = Inr (IdentityPoolId t)"
  "js_get (tenant_record t) ''systemAdminRole'' = Inr (systemAdminRole t)"
  "js_get (tenant_record t) ''systemAdminPolicy'' = Inr (systemAdminPolicy t)"
  "js_get (tenant_record t) ''status'' = Inr (JStr ''Active'')"
  by (simp_all add: tenant_record_def)

subsection \<open>The three stages of the create workflow\<close>

text \<open>
  A stage whose conversion throws does nothing else. Otherwise it makes exactly one
  outbound call and writes one log entry.
\<close>

lemma verify_throws:
  "\<not> converts (userName t) \<Longrightarrow> \<exists>te. verifyUserDoesntExist e t w = (Inl (Throws te), w)"
  unfolding verifyUserDoesntExist_def by (rule template_throws)

lemma register_throws:
  "\<not> converts (userName t) \<Longrightarrow> \<exists>te. registerTenantAdmin e t w = (Inl (Throws te), w)"
  unfolding registerTenantAdmin_def by (rule template_throws)


lemma verify_world:
  "converts (userName t) \<Longrightarrow>
   snd (verifyUserDoesntExist e t w) =
     w\<lparr>calls := calls w @ [check_call e t],
       logs := logs w @ [(Debug, Str (''Checking tenant exists: '' @ string_of (userName t)))]\<rparr>"
  by (simp add: verifyUserDoesntExist_def template_converts then_p_def catch_p_def resolve_def
      throw_def as_rejection_def axios_get_def axios_request_def logger_def
      check_call_def Let_def split: axios_result.splits sum.splits prod.splits failure.splits)

lemma register_world:
  "converts (userName t) \<Longrightarrow>
   snd (registerTenantAdmin e t w) =
     w\<lparr>calls := calls w @ [register_call e t],
       logs := logs w @ [(Debug, Str (''Registering tenant admin: '' @ string_of (userName t)))]\<rparr>"
  by (simp add: registerTenantAdmin_def template_converts then_p_def catch_p_def resolve_def
      throw_def as_rejection_def axios_post_def axios_request_def logger_def
      register_call_def Let_def split: axios_result.splits sum.splits prod.splits failure.splits)

lemma save_world:
  "converts (tid t) \<Longrightarrow>
   snd (saveTenantData e t w) =
     w\<lparr>calls := calls w @ [persist_call e t],
       logs := logs w @ [(Info, Str (''saveTenantData saving '' @ string_of (tid t)))]\<rparr>"
  by (simp add: saveTenantData_def template_converts then_p_def catch_p_def resolve_def
      throw_def as_rejection_def axios_post_def axios_request_def logger_def
      persist_call_def Let_def split: axios_result.splits sum.splits prod.splits failure.splits)

lemma calls_verify:
  "converts (userName t) \<Longrightarrow> calls (snd (verifyUserDoesntExist e t w)) = calls w @ [check_call e t]"
  by (simp add: verify_world)

lemma calls_register:
  "converts (userName t) \<Longrightarrow> calls (snd (registerTenantAdmin e t w)) = calls w @ [register_call e t]"
  by (simp add: register_world)

lemma calls_save:
  "converts (tid t) \<Longrightarrow> calls (snd (saveTenantData e t w)) = calls w @ [persist_call e t]"
  by (simp add: save_world)

text \<open>When a stage is fulfilled, and what it rejects with.\<close>

lemma verify_fst_iff:
  "converts (userName t) \<Longrightarrow>
   fst (verifyUserDoesntExist e t w) = Inr () \<longleftrightarrow> check_passes t (net e (calls w) (check_call e t))"
  by (auto simp add: verifyUserDoesntExist_def template_converts then_p_def catch_p_def resolve_def
      throw_def as_rejection_def axios_get_def axios_request_def
      logger_def Let_def check_call_def check_passes_def nullish_def field_at_def js_get_cases
      js_strict_eq_JStr err_response_cannot_read
      split: axios_result.splits sum.splits prod.splits if_splits option.splits failure.splits)

lemma verify_rejects_Error:
  "converts (userName t) \<Longrightarrow> fst (verifyUserDoesntExist e t w) = Inl x \<Longrightarrow> \<exists>m. x = Rejects (Error m)"
  by (auto simp add: verifyUserDoesntExist_def template_converts then_p_def catch_p_def resolve_def
      throw_def as_rejection_def axios_get_def axios_request_def
      logger_def Let_def split: axios_result.splits sum.splits prod.splits if_splits failure.splits)

lemma register_fst_iff:
  "converts (userName t) \<Longrightarrow>
   fst (registerTenantAdmin e t w) = Inr t' \<longleftrightarrow>
     (\<exists>r. net e (calls w) (register_call e t) = Resolved r
          \<and> infra_containers_present (resp_data r) \<and> t' = with_infra t (resp_data r))"
  by (auto simp add: registerTenantAdmin_def template_converts then_p_def catch_p_def resolve_def
      throw_def as_rejection_def axios_post_def axios_request_def
      logger_def register_call_def Let_def attach_infra_iff attach_infra_ok
      split: axios_result.splits sum.splits prod.splits failure.splits)

lemma register_rejects_Error:
  "converts (userName t) \<Longrightarrow> fst (registerTenantAdmin e t w) = Inl x \<Longrightarrow>
     \<exists>m. x = Rejects (Error (''Error registering new system admin user: '' @ m))"
  by (auto simp add: registerTenantAdmin_def template_converts then_p_def catch_p_def resolve_def
      throw_def as_rejection_def axios_post_def axios_request_def
      logger_def Let_def split: axios_result.splits sum.splits prod.splits failure.splits)

lemma save_fst_iff:
  "converts (tid t) \<Longrightarrow>
   (\<exists>r. fst (saveTenantData e t w) = Inr r) \<longleftrightarrow>
     (\<exists>r. net e (calls w) (persist_call e t) = Resolved r)"
  by (auto simp add: saveTenantData_def template_converts then_p_def catch_p_def resolve_def
      throw_def as_rejection_def axios_post_def axios_request_def
      logger_def Let_def persist_call_def split: axios_result.splits sum.splits prod.splits failure.splits)

lemma save_rejects_Error:
  "converts (tid t) \<Longrightarrow> fst (saveTenantData e t w) = Inl x \<Longrightarrow>
     \<exists>m. x = Rejects (Error (''Failed to save tenant data.  Error: '' @ m))"
  by (auto simp add: saveTenantData_def template_converts then_p_def catch_p_def resolve_def
      throw_def as_rejection_def axios_post_def axios_request_def
      logger_def Let_def split: axios_result.splits sum.splits prod.splits failure.splits)

lemma with_infra_unchanged:
  "tid (with_infra t d) = tid t" "userName (with_infra t d) = userName t"
  by (simp_all add: with_infra_def)

lemma register_as_rejection:
  assumes "converts (userName t)"
  shows "as_rejection (registerTenantAdmin e t w) = registerTenantAdmin e t w"
proof (cases "fst (registerTenantAdmin e t w)")
  case (Inl x)
  with register_rejects_Error [OF assms Inl] show ?thesis
    by (auto simp add: as_rejection_Rejects)
next
  case (Inr v)
  then show ?thesis by (rule as_rejection_Inr)
qed

lemma save_as_rejection:
  assumes "converts (tid t)"
  shows "as_rejection (saveTenantData e t w) = saveTenantData e t w"
proof (cases "fst (saveTenantData e t w)")
  case (Inl x)
  with save_rejects_Error [OF assms Inl] show ?thesis
    by (auto simp add: as_rejection_Rejects)
next
  case (Inr v)
  then show ?thesis by (rule as_rejection_Inr)
qed

subsection \<open>The promise chain of the create workflow\<close>

text \<open>The last handler of the chain, which sends the answer.\<close>

lemma last_handler:
  "converts i \<Longrightarrow>
   as_rejection (template i (\<lambda>s w'. resolve () (res_send (f s) w')) w) =
   (Inr (), res_send (f (string_of i)) w)"
  by (simp add: template_converts resolve_def as_rejection_def)

text \<open>The ways the chain can run.\<close>

lemma chain_throws:
  assumes "\<not> converts (userName t)"
  shows "\<exists>te. create_chain e t w = (Inl (Throws te), w)"
proof -
  from verify_throws [OF assms] obtain te where "verifyUserDoesntExist e t w = (Inl (Throws te), w)"
    by blast
  then have "create_chain e t w = (Inl (Throws te), w)"
    by (simp add: create_chain_def then_p_def)
  then show ?thesis by blast
qed

lemma chain_check_fails:
  assumes "converts (userName t)"
    and "\<not> check_passes t (net e (calls w) (check_call e t))"
  shows "\<exists>m. fst (create_chain e t w) = Inl (Rejects (Error m))"
    and "snd (create_chain e t w) = snd (verifyUserDoesntExist e t w)"
proof -
  from assms have "fst (verifyUserDoesntExist e t w) \<noteq> Inr ()"
    by (simp add: verify_fst_iff)
  then obtain x where x: "fst (verifyUserDoesntExist e t w) = Inl x"
    by (cases "fst (verifyUserDoesntExist e t w)") auto
  then obtain m where "x = Rejects (Error m)"
    using verify_rejects_Error [OF assms(1)] by blast
  with x show "\<exists>m. fst (create_chain e t w) = Inl (Rejects (Error m))"
    by (simp add: create_chain_def then_p_Inl)
  from x show "snd (create_chain e t w) = snd (verifyUserDoesntExist e t w)"
    by (simp add: create_chain_def then_p_Inl)
qed

lemma chain_after_check:
  assumes "converts (userName t)"
    and "check_passes t (net e (calls w) (check_call e t))"
  shows "create_chain e t w =
           then_p
             (then_p (registerTenantAdmin e t) (\<lambda>registeredTenant. saveTenantData e registeredTenant))
             (\<lambda>_ w. template (tid t)
                (\<lambda>i w'. resolve () (res_send (''System admin user '' @ i @ '' registered'') w'))
                (res_status 200 w))
             (snd (verifyUserDoesntExist e t w))"
proof -
  from assms have ok: "fst (verifyUserDoesntExist e t w) = Inr ()"
    by (simp add: verify_fst_iff)
  show ?thesis
    unfolding create_chain_def
    by (cases "verifyUserDoesntExist e t w")
       (use ok in \<open>simp add: then_p_def register_as_rejection [OF assms(1)]\<close>)
qed

lemma chain_registration_fails:
  assumes "converts (userName t)"
    and "check_passes t (net e (calls w) (check_call e t))"
    and "fst (registerTenantAdmin e t (snd (verifyUserDoesntExist e t w))) = Inl x"
  shows "fst (create_chain e t w) = Inl x"
    and "snd (create_chain e t w) = snd (registerTenantAdmin e t (snd (verifyUserDoesntExist e t w)))"
  using assms(3) by (simp_all add: chain_after_check [OF assms(1,2)] then_p_Inl)

lemma chain_at_save:
  assumes "converts (userName t)"
    and "check_passes t (net e (calls w) (check_call e t))"
    and "fst (registerTenantAdmin e t (snd (verifyUserDoesntExist e t w))) = Inr t'"
  shows "create_chain e t w =
           then_p (\<lambda>w. as_rejection (saveTenantData e t' w))
             (\<lambda>_ w. template (tid t)
                (\<lambda>i w'. resolve () (res_send (''System admin user '' @ i @ '' registered'') w'))
                (res_status 200 w))
             (snd (registerTenantAdmin e t (snd (verifyUserDoesntExist e t w))))"
  using assms(3) by (simp add: chain_after_check [OF assms(1,2)] then_p_then_p_Inr)

lemma registered_tid:
  assumes "converts (userName t)" and "fst (registerTenantAdmin e t w) = Inr t'"
  shows "tid t' = tid t"
  using assms by (auto simp add: register_fst_iff with_infra_unchanged)


lemma chain_registered:
  assumes "converts (userName t)" and "converts (tid t)"
    and "check_passes t (net e (calls w) (check_call e t))"
    and "fst (registerTenantAdmin e t (snd (verifyUserDoesntExist e t w))) = Inr t'"
  shows "calls (snd (create_chain e t w)) =
           calls w @ [check_call e t, register_call e t, persist_call e t']"
    and "fst (create_chain e t w) = Inl x \<Longrightarrow>
           \<exists>m. x = Rejects (Error (''Failed to save tenant data.  Error: '' @ m))"
    and "fst (create_chain e t w) = Inr () \<longleftrightarrow>
           (\<exists>r. net e (calls w @ [check_call e t, register_call e t]) (persist_call e t') = Resolved r)"
    and "fst (create_chain e t w) = Inr () \<Longrightarrow>
           res (snd (create_chain e t w)) =
             (res w)\<lparr>statusCode := 200,
                     sent := Some (Text (''System admin user '' @ string_of (tid t) @ '' registered''))\<rparr>"
proof -
  let ?w1 = "snd (verifyUserDoesntExist e t w)"
  let ?w2 = "snd (registerTenantAdmin e t ?w1)"
  let ?k = "\<lambda>(_::axios_response) w. template (tid t)
                (\<lambda>i w'. resolve () (res_send (''System admin user '' @ i @ '' registered'') w'))
                (res_status 200 w)"
  have ci: "converts (tid t')"
    using assms(2) registered_tid [OF assms(1,4)] by simp
  have step: "create_chain e t w = then_p (saveTenantData e t') ?k ?w2"
    by (simp add: chain_at_save [OF assms(1,3,4)] save_as_rejection [OF ci])
  have c2: "calls ?w2 = calls w @ [check_call e t, register_call e t]"
    by (simp add: calls_register calls_verify assms(1))
  have r2: "res ?w2 = res w"
    by (simp add: register_world verify_world assms(1))
  have iff: "(\<exists>r. fst (saveTenantData e t' ?w2) = Inr r) \<longleftrightarrow>
      (\<exists>r. net e (calls w @ [check_call e t, register_call e t]) (persist_call e t') = Resolved r)"
    using save_fst_iff [OF ci, of e ?w2] by (simp only: c2)
  have fin: "create_chain e t w =
      (Inr (), res_send (''System admin user '' @ string_of (tid t) @ '' registered'')
                 (res_status 200 (snd (saveTenantData e t' ?w2))))"
    if "fst (saveTenantData e t' ?w2) = Inr y" for y
    using that by (simp add: step then_p_Inr last_handler assms(2))
  show "calls (snd (create_chain e t w)) =
           calls w @ [check_call e t, register_call e t, persist_call e t']"
  proof (cases "fst (saveTenantData e t' ?w2)")
    case (Inl y)
    then show ?thesis by (simp add: step then_p_Inl calls_save ci c2)
  next
    case (Inr y)
    show ?thesis
      unfolding fin [OF Inr] by (simp add: res_send_def res_status_def calls_save ci c2)
  qed
  show "fst (create_chain e t w) = Inl x \<Longrightarrow>
           \<exists>m. x = Rejects (Error (''Failed to save tenant data.  Error: '' @ m))"
  proof (cases "fst (saveTenantData e t' ?w2)")
    case (Inl y)
    assume "fst (create_chain e t w) = Inl x"
    with Inl have "y = x" by (simp add: step then_p_Inl)
    with Inl show ?thesis using save_rejects_Error [OF ci] by blast
  next
    case (Inr y)
    assume "fst (create_chain e t w) = Inl x"
    with Inr show ?thesis by (simp add: step then_p_Inr last_handler assms(2))
  qed
  show "fst (create_chain e t w) = Inr () \<longleftrightarrow>
           (\<exists>r. net e (calls w @ [check_call e t, register_call e t]) (persist_call e t') = Resolved r)"
  proof (cases "fst (saveTenantData e t' ?w2)")
    case (Inl y)
    then have "fst (create_chain e t w) = Inl y" by (simp add: step then_p_Inl)
    with Inl iff show ?thesis by auto
  next
    case (Inr y)
    then have "fst (create_chain e t w) = Inr ()"
      by (simp add: step then_p_Inr last_handler assms(2))
    with Inr iff show ?thesis by auto
  qed
  show "fst (create_chain e t w) = Inr () \<Longrightarrow>
           res (snd (create_chain e t w)) =
             (res w)\<lparr>statusCode := 200,
                     sent := Some (Text (''System admin user '' @ string_of (tid t) @ '' registered''))\<rparr>"
  proof (cases "fst (saveTenantData e t' ?w2)")
    case (Inl y)
    assume "fst (create_chain e t w) = Inr ()"
    with Inl show ?thesis by (simp add: step then_p_Inl)
  next
    case (Inr y)
    show ?thesis
      unfolding fin [OF Inr] by (simp add: res_send_def res_status_def save_world ci r2)
  qed
qed


lemma chain_rejects_Error:
  assumes "converts (userName t)" and "converts (tid t)"
    and "fst (create_chain e t w) = Inl x"
  shows "\<exists>m. x = Rejects (Error m)"
proof (cases "check_passes t (net e (calls w) (check_call e t))")
  case False
  with assms(3) chain_check_fails(1) [OF assms(1) False] show ?thesis by auto
next
  case True
  show ?thesis
  proof (cases "fst (registerTenantAdmin e t (snd (verifyUserDoesntExist e t w)))")
    case (Inl y)
    with assms(3) chain_registration_fails(1) [OF assms(1) True Inl]
      register_rejects_Error [OF assms(1) Inl]
    show ?thesis by auto
  next
    case (Inr t')
    from chain_registered(2) [OF assms(1,2) True Inr assms(3)] show ?thesis by blast
  qed
qed

lemma chain_res_on_error:
  assumes "converts (userName t)" and "converts (tid t)"
    and "fst (create_chain e t w) = Inl x"
  shows "res (snd (create_chain e t w)) = res w"
proof (cases "check_passes t (net e (calls w) (check_call e t))")
  case False
  then show ?thesis by (simp add: chain_check_fails(2) [OF assms(1)] verify_world assms(1))
next
  case True
  show ?thesis
  proof (cases "fst (registerTenantAdmin e t (snd (verifyUserDoesntExist e t w)))")
    case (Inl y)
    then show ?thesis
      by (simp add: chain_registration_fails(2) [OF assms(1) True] register_world verify_world assms(1))
  next
    case (Inr t')
    let ?w2 = "snd (registerTenantAdmin e t (snd (verifyUserDoesntExist e t w)))"
    have ci: "converts (tid t')"
      using assms(2) registered_tid [OF assms(1) Inr] by simp
    have step: "create_chain e t w =
        then_p (saveTenantData e t')
          (\<lambda>_ w. template (tid t)
             (\<lambda>i w'. resolve () (res_send (''System admin user '' @ i @ '' registered'') w'))
             (res_status 200 w)) ?w2"
      by (simp add: chain_at_save [OF assms(1) True Inr] save_as_rejection [OF ci])
    show ?thesis
    proof (cases "fst (saveTenantData e t' ?w2)")
      case (Inl y)
      then show ?thesis
        by (simp add: step then_p_Inl save_world ci register_world verify_world assms(1))
    next
      case (Inr y)
      with assms(3) show ?thesis by (simp add: step then_p_Inr last_handler assms(2))
    qed
  qed
qed

subsection \<open>The handlers\<close>

lemma created_tenant_fields:
  "userName (created_tenant e req) = userName (req_body req)"
  "tid (created_tenant e req) = JStr (tenant_id e)"
  "converts (tid (created_tenant e req))"
  "string_of (tid (created_tenant e req)) = tenant_id e"
  by (simp_all add: created_tenant_def converts_JStr)

lemma calls_chain_start: "calls (chain_start e w) = calls w"
  by (simp add: chain_start_def logger_def)

lemma res_chain_start: "res (chain_start e w) = res w"
  by (simp add: chain_start_def logger_def)

lemma calls_error_middleware: "calls (error_middleware err w) = calls w"
  by (simp add: error_middleware_def res_json_def res_status_def res_send_def logger_def)


lemma res_error_middleware_other:
  "err_name err \<noteq> ''BadRequestError'' \<Longrightarrow>
     res (error_middleware err w) = (res w)\<lparr>statusCode := 500, sent := Some (Text ''Server Error'')\<rparr>"
  by (simp add: error_middleware_def res_send_def res_status_def logger_def)

lemma res_error_middleware_bad_request:
  "res (error_middleware (BadRequestError m) w) =
     (res w)\<lparr>statusCode := 400, sent := Some (Json (JObj [(''error'', JStr m)]))\<rparr>"
  by (simp add: error_middleware_def res_json_def res_status_def)

lemma logs_error_middleware_other:
  "err_name err \<noteq> ''BadRequestError'' \<Longrightarrow>
     logs (error_middleware err w) = logs w @ [(Err, StackOf err)]"
  by (simp add: error_middleware_def res_send_def res_status_def logger_def)

lemma post_sys_admin_Rejects:
  assumes "fst (create_chain e (created_tenant e req) (chain_start e w)) = Inl (Rejects err)"
  shows "post_sys_admin e req w =
           error_middleware err (snd (create_chain e (created_tenant e req) (chain_start e w)))"
  using assms
  by (simp add: post_sys_admin_def Let_def created_tenant_def chain_start_def catch_p_Rejects
      resolve_def as_rejection_def)

lemma post_sys_admin_Throws:
  assumes "fst (create_chain e (created_tenant e req) (chain_start e w)) = Inl (Throws err)"
  shows "post_sys_admin e req w = snd (create_chain e (created_tenant e req) (chain_start e w))"
  using assms
  by (simp add: post_sys_admin_def Let_def created_tenant_def chain_start_def catch_p_Throws)

lemma post_sys_admin_Inr:
  assumes "fst (create_chain e (created_tenant e req) (chain_start e w)) = Inr v"
  shows "post_sys_admin e req w = snd (create_chain e (created_tenant e req) (chain_start e w))"
  using assms
  by (simp add: post_sys_admin_def Let_def created_tenant_def chain_start_def catch_p_Inr)

lemma calls_post_sys_admin:
  "calls (post_sys_admin e req w) =
     calls (snd (create_chain e (created_tenant e req) (chain_start e w)))"
proof (cases "fst (create_chain e (created_tenant e req) (chain_start e w))")
  case (Inl x)
  then show ?thesis
    by (cases x) (simp_all add: post_sys_admin_Rejects post_sys_admin_Throws calls_error_middleware)
next
  case (Inr v)
  then show ?thesis by (simp add: post_sys_admin_Inr)
qed

text \<open>
  A request whose user name does not convert: the handler logs its first line and ends;
  it makes no call and sends nothing.
\<close>

lemma post_sys_admin_unprintable:
  assumes "\<not> converts (userName (req_body req))"
  shows "post_sys_admin e req w = chain_start e w"
proof -
  from assms have "\<not> converts (userName (created_tenant e req))"
    by (simp add: created_tenant_fields)
  from chain_throws [OF this, of e "chain_start e w"] obtain te where
    te: "create_chain e (created_tenant e req) (chain_start e w) = (Inl (Throws te), chain_start e w)"
    by blast
  then have "fst (create_chain e (created_tenant e req) (chain_start e w)) = Inl (Throws te)"
    by simp
  from post_sys_admin_Throws [OF this] te show ?thesis by simp
qed

text \<open>
  A request whose user name converts: a chain that fails is rejected with a plain
  \<^verbatim>\<open>Error\<close>, which the error middleware answers with 500.
\<close>

lemma rejections_are_answered_with_500:
  assumes "converts (userName (req_body req))"
    and "fst (create_chain e (created_tenant e req) (chain_start e w)) = Inl x"
  shows "\<exists>m. x = Rejects (Error m)"
    and "res (post_sys_admin e req w) =
           (res w)\<lparr>statusCode := 500, sent := Some (Text ''Server Error'')\<rparr>"
proof -
  let ?t = "created_tenant e req"
  have cu: "converts (userName ?t)" using assms(1) by (simp add: created_tenant_fields)
  have ci: "converts (tid ?t)" by (rule created_tenant_fields)
  from chain_rejects_Error [OF cu ci assms(2)] obtain m where m: "x = Rejects (Error m)"
    by blast
  then show "\<exists>m. x = Rejects (Error m)" by blast
  from assms(2) m have r: "fst (create_chain e ?t (chain_start e w)) = Inl (Rejects (Error m))"
    by simp
  have "res (post_sys_admin e req w) =
      res (error_middleware (Error m) (snd (create_chain e ?t (chain_start e w))))"
    by (simp only: post_sys_admin_Rejects [OF r])
  also have "\<dots> = (res (snd (create_chain e ?t (chain_start e w))))
      \<lparr>statusCode := 500, sent := Some (Text ''Server Error'')\<rparr>"
    by (rule res_error_middleware_other) simp
  also have "res (snd (create_chain e ?t (chain_start e w))) = res w"
    by (simp add: chain_res_on_error [OF cu ci r] res_chain_start)
  finally show "res (post_sys_admin e req w) =
           (res w)\<lparr>statusCode := 500, sent := Some (Text ''Server Error'')\<rparr>" .
qed


text \<open>
  The existence check is made, as the first outbound call of the handler, exactly for the
  requests whose user name converts.
\<close>

lemma check_is_made_iff:
  "(\<exists>rest. calls (post_sys_admin e req w) = calls w @ check_call e (created_tenant e req) # rest)
     \<longleftrightarrow> converts (userName (req_body req))"
proof (cases "converts (userName (req_body req))")
  case False
  then have "calls (post_sys_admin e req w) = calls w"
    by (simp add: post_sys_admin_unprintable calls_chain_start)
  with False show ?thesis by simp
next
  case True
  let ?t = "created_tenant e req"
  let ?w0 = "chain_start e w"
  have cu: "converts (userName ?t)" using True by (simp add: created_tenant_fields)
  have ci: "converts (tid ?t)" by (rule created_tenant_fields)
  have "\<exists>rest. calls (snd (create_chain e ?t ?w0)) = calls w @ check_call e ?t # rest"
  proof (cases "check_passes ?t (net e (calls ?w0) (check_call e ?t))")
    case False
    from chain_check_fails(2) [OF cu False] show ?thesis
      by (simp add: calls_verify cu calls_chain_start)
  next
    case pass: True
    show ?thesis
    proof (cases "fst (registerTenantAdmin e ?t (snd (verifyUserDoesntExist e ?t ?w0)))")
      case (Inl x)
      from chain_registration_fails(2) [OF cu pass Inl] show ?thesis
        by (simp add: calls_register calls_verify cu calls_chain_start)
    next
      case (Inr t')
      from chain_registered(1) [OF cu ci pass Inr] show ?thesis
        by (simp add: calls_chain_start)
    qed
  qed
  with True show ?thesis by (simp add: calls_post_sys_admin)
qed

lemma deleteInfra_eq:
  "deleteInfra e w =
     (Inr (),
      w\<lparr>calls := calls w @ [delete_call e],
        logs := logs w @
          [(Info, Str (case net e (calls w) (delete_call e) of
                         Resolved r \<Rightarrow> ''Removed Infrastructure''
                       | Rejected m ro \<Rightarrow> ''Error Removing Infrastructure: '' @ m))]\<rparr>)"
  by (simp add: deleteInfra_def then_p_def catch_p_def resolve_def as_rejection_def
      axios_delete_def axios_request_def logger_def
      delete_call_def Let_def split: axios_result.splits)

lemma delete_sys_admin_eq:
  "delete_sys_admin e w =
     res_send ''System Infrastructure & Tables removed''
       (res_status 200
          (logger Debug (Str ''System Infrastructure & Tables removed'')
             (logger Debug (Str ''Delete Infra'') (snd (deleteInfra e w)))))"
  by (simp add: delete_sys_admin_def then_p_def catch_p_def resolve_def as_rejection_def
      deleteInfra_eq)



text \<open>
  A conflict found by the existence check, for any request whose user name converts: the
  error that reaches the error middleware is a plain \<^verbatim>\<open>Error\<close>, the answer is 500, and
  the check is the only outbound call.
\<close>

lemma conflict_is_wrapped:
  assumes "converts (userName (req_body req))"
    and "net e (calls w) (check_call e (created_tenant e req)) = Resolved r"
    and "\<not> nullish (resp_data r)"
    and "js_strict_eq (field_at (resp_data r) [''userName'']) (userName (created_tenant e req))"
  shows "res (post_sys_admin e req w) =
           (res w)\<lparr>statusCode := 500, sent := Some (Text ''Server Error'')\<rparr>"
    and "calls (post_sys_admin e req w) = calls w @ [check_call e (created_tenant e req)]"
proof -
  let ?t = "created_tenant e req"
  let ?w0 = "chain_start e w"
  have cu: "converts (userName ?t)" using assms(1) by (simp add: created_tenant_fields)
  from assms(2-4) have no: "\<not> check_passes ?t (net e (calls ?w0) (check_call e ?t))"
    by (simp add: check_passes_def calls_chain_start)
  from chain_check_fails(1) [OF cu no] obtain m where
    m: "fst (create_chain e ?t ?w0) = Inl (Rejects (Error m))"
    by blast
  from rejections_are_answered_with_500(2) [OF assms(1) m]
  show "res (post_sys_admin e req w) =
           (res w)\<lparr>statusCode := 500, sent := Some (Text ''Server Error'')\<rparr>" .
  show "calls (post_sys_admin e req w) = calls w @ [check_call e ?t]"
    by (simp add: calls_post_sys_admin chain_check_fails(2) [OF cu no] calls_verify cu
        calls_chain_start)
qed

section \<open>Concrete runs\<close>

lemmas run_defs =
  post_sys_admin_def create_chain_def verifyUserDoesntExist_def registerTenantAdmin_def
  saveTenantData_def error_middleware_def then_p_def catch_p_def resolve_def throw_def
  as_rejection_def template_def
  axios_get_def axios_post_def axios_delete_def axios_request_def logger_def
  res_status_def res_send_def res_json_def res_header_def
  registerTenantUserURL_def deleteInfraUrl_def created_tenant_def chain_start_def
  check_call_def register_call_def persist_call_def delete_call_def string_of_def converts_def

lemmas demo_defs =
  alice_def post_alice_def post_unprintable_def not_found_response_def infra_response_def
  bare_response_def net_new_user_def net_bare_def
  net_existing_user_def net_down_def env_of_def fresh_def

lemma tenant_id_demo: "tenant_id (env_of n) = ''SYSADMIN110ec58aa0f24ac48393c866d813b8d1''"
  by (simp add: tenant_id_eq env_of_def)

lemma alice_converts:
  "converts (userName alice)" "converts (tid alice)" "converts (userName (req_body post_alice))"
  by (simp_all add: converts_def alice_def post_alice_def)


lemma new_user_trace:
  "map (\<lambda>c. (c_method c, c_url c)) (calls (post_sys_admin (env_of net_new_user) post_alice fresh)) =
     [(''GET'', ''http://user/pool/alice''), (''POST'', ''http://user/system''),
      (''POST'', ''http://tenant'')]"
  by (simp add: run_defs demo_defs Let_def attach_infra_def bind_e_def)

text \<open>
  A body whose user name is \<^verbatim>\<open>{"toString": 1}\<close>: line 125 throws, no call is made and
  nothing is sent, whatever the downstream services would answer.
\<close>

lemma unprintable_user_name_gets_no_answer:
  "calls (post_sys_admin (env_of net_new_user) post_unprintable fresh) = []
   \<and> sent (res (post_sys_admin (env_of net_new_user) post_unprintable fresh)) = None
   \<and> logs (post_sys_admin (env_of net_new_user) post_unprintable fresh) =
       [(Debug, Str ''Creating system admin user, tenant id: SYSADMIN110ec58a-a0f2-4ac4-8393-c866d813b8d1'')]"
  by (simp add: run_defs demo_defs Let_def raw_tenant_id_def)

section \<open>Properties of the service\<close>

text \<open>
  C1. A create request whose existence check returns a user-pool entry with the requested
  user name should be answered with 400 and \<^verbatim>\<open>{error: "Admin user <userName> already
  exists"}\<close>, without registration or persistence. The program throws the
  \<^verbatim>\<open>BadRequestError\<close> inside the \<^verbatim>\<open>then\<close> handler of \<open>verifyUserDoesntExist\<close>, and the
  \<^verbatim>\<open>catch\<close> chained behind that handler receives it: the error has no \<^verbatim>\<open>response\<close>,
  so the handler rethrows it as a plain \<^verbatim>\<open>Error\<close>, which the error middleware answers
  with 500 \<^verbatim>\<open>Server Error\<close>. Here the user-management service answers
  \<^verbatim>\<open>GET /pool/alice\<close> with \<^verbatim>\<open>{userName: "alice"}\<close>: the response is 500, and the
  existence check is the only outbound call.
\<close>

theorem conflict_is_answered_with_500:
  "statusCode (res (post_sys_admin (env_of net_existing_user) post_alice fresh)) = 500
   \<and> sent (res (post_sys_admin (env_of net_existing_user) post_alice fresh))
       = Some (Text ''Server Error'')
   \<and> calls (post_sys_admin (env_of net_existing_user) post_alice fresh) =
        [\<lparr>c_method = ''GET'', c_url = ''http://user/pool/alice'', c_data = JUndefined\<rparr>]"
  by (simp add: run_defs demo_defs Let_def)

text \<open>
  C2. Of the errors of the create workflow, only a conflict should be surfaced, with 400
  and its message, and every other one answered with a generic 500. The second half holds
  (lemma \<open>rejections_are_answered_with_500\<close>); the first does not, by the defect of C1: the
  conflict leaves \<open>verifyUserDoesntExist\<close> as a plain \<^verbatim>\<open>Error\<close> that wraps its message, so
  the answer is not the 400 with \<^verbatim>\<open>{error: "Admin user alice already exists"}\<close>, and the
  message appears in the log only.
\<close>

theorem conflict_message_is_not_surfaced:
  "fst (create_chain (env_of net_existing_user)
          (created_tenant (env_of net_existing_user) post_alice)
          (chain_start (env_of net_existing_user) fresh))
     = Inl (Rejects (Error
         ''Failed to check if tenant alice exists. Error: Admin user alice already exists''))
   \<and> statusCode (res (post_sys_admin (env_of net_existing_user) post_alice fresh)) \<noteq> 400
   \<and> sent (res (post_sys_admin (env_of net_existing_user) post_alice fresh))
       \<noteq> Some (Json (JObj [(''error'', JStr ''Admin user alice already exists'')]))
   \<and> last (logs (post_sys_admin (env_of net_existing_user) post_alice fresh)) =
       (Err, StackOf (Error
         ''Failed to check if tenant alice exists. Error: Admin user alice already exists''))"
  by (simp add: run_defs demo_defs Let_def)

text \<open>
  C3. When the registration response holds \<^verbatim>\<open>pool.UserPool.Id = "P1"\<close>,
  \<^verbatim>\<open>identityPool.IdentityPoolId = "I1"\<close>, \<^verbatim>\<open>role.systemAdminRole = "R1"\<close> and
  \<^verbatim>\<open>policy.systemAdminPolicy = "PO1"\<close>, registration is fulfilled and the call that
  follows it is a POST to the tenant-management service whose record has
  \<^verbatim>\<open>UserPoolId = "P1"\<close>, \<^verbatim>\<open>IdentityPoolId = "I1"\<close>, \<^verbatim>\<open>systemAdminRole = "R1"\<close>,
  \<^verbatim>\<open>systemAdminPolicy = "PO1"\<close> and \<^verbatim>\<open>status = "Active"\<close>. This is so for every tenant
  that can reach the registration: one whose user name has been converted to a string by
  the existence check, and whose id converts as the generated id does.
\<close>

theorem registration_fields_are_persisted:
  assumes "converts (userName t)" and "converts (tid t)"
    and "net e (calls w) (register_call e t) = Resolved r"
    and "field_at (resp_data r) [''pool'', ''UserPool'', ''Id''] = JStr ''P1''"
    and "field_at (resp_data r) [''identityPool'', ''IdentityPoolId''] = JStr ''I1''"
    and "field_at (resp_data r) [''role'', ''systemAdminRole''] = JStr ''R1''"
    and "field_at (resp_data r) [''policy'', ''systemAdminPolicy''] = JStr ''PO1''"
  shows "\<exists>c. calls (snd (then_p (registerTenantAdmin e t) (saveTenantData e) w)) =
               calls w @ [register_call e t, c]
             \<and> c_method c = ''POST'' \<and> c_url c = tenantURL e
             \<and> js_get (c_data c) ''UserPoolId'' = Inr (JStr ''P1'')
             \<and> js_get (c_data c) ''IdentityPoolId'' = Inr (JStr ''I1'')
             \<and> js_get (c_data c) ''systemAdminRole'' = Inr (JStr ''R1'')
             \<and> js_get (c_data c) ''systemAdminPolicy'' = Inr (JStr ''PO1'')
             \<and> js_get (c_data c) ''status'' = Inr (JStr ''Active'')"
proof -
  let ?t' = "with_infra t (resp_data r)"
  have req: "infra_containers_present (resp_data r)"
    using assms(4-7) by (rule infra_containers_from_fields)
  with assms(3) have ok: "fst (registerTenantAdmin e t w) = Inr ?t'"
    by (simp add: register_fst_iff assms(1))
  have ci: "converts (tid ?t')"
    using assms(2) by (simp add: with_infra_unchanged)
  have trace: "calls (snd (then_p (registerTenantAdmin e t) (saveTenantData e) w)) =
          calls w @ [register_call e t, persist_call e ?t']"
    using then_p_Inr [of "registerTenantAdmin e t" w ?t' "saveTenantData e", OF ok]
    by (simp add: snd_as_rejection calls_save ci calls_register assms(1))
  have fields: "js_get (c_data (persist_call e ?t')) ''UserPoolId'' = Inr (JStr ''P1'')"
    "js_get (c_data (persist_call e ?t')) ''IdentityPoolId'' = Inr (JStr ''I1'')"
    "js_get (c_data (persist_call e ?t')) ''systemAdminRole'' = Inr (JStr ''R1'')"
    "js_get (c_data (persist_call e ?t')) ''systemAdminPolicy'' = Inr (JStr ''PO1'')"
    "js_get (c_data (persist_call e ?t')) ''status'' = Inr (JStr ''Active'')"
    using assms(4-7) by (simp_all add: persist_call_def tenant_record_fields with_infra_def)
  have dest: "c_method (persist_call e ?t') = ''POST''" "c_url (persist_call e ?t') = tenantURL e"
    by (simp_all add: persist_call_def)
  from trace dest fields show ?thesis
    by (intro exI [of _ "persist_call e ?t'"] conjI)
qed

theorem registration_fields_are_persisted_witness:
  "converts (userName alice) \<and> converts (tid alice)
   \<and> net (env_of net_new_user) (calls fresh) (register_call (env_of net_new_user) alice)
     = Resolved infra_response
   \<and> field_at (resp_data infra_response) [''pool'', ''UserPool'', ''Id''] = JStr ''P1''
   \<and> field_at (resp_data infra_response) [''identityPool'', ''IdentityPoolId''] = JStr ''I1''
   \<and> field_at (resp_data infra_response) [''role'', ''systemAdminRole''] = JStr ''R1''
   \<and> field_at (resp_data infra_response) [''policy'', ''systemAdminPolicy''] = JStr ''PO1''
   \<and> (\<exists>c. calls (snd (then_p (registerTenantAdmin (env_of net_new_user) alice)
                         (saveTenantData (env_of net_new_user)) fresh)) =
               calls fresh @ [register_call (env_of net_new_user) alice, c]
             \<and> c_method c = ''POST'' \<and> c_url c = tenantURL (env_of net_new_user)
             \<and> js_get (c_data c) ''UserPoolId'' = Inr (JStr ''P1'')
             \<and> js_get (c_data c) ''IdentityPoolId'' = Inr (JStr ''I1'')
             \<and> js_get (c_data c) ''systemAdminRole'' = Inr (JStr ''R1'')
             \<and> js_get (c_data c) ''systemAdminPolicy'' = Inr (JStr ''PO1'')
             \<and> js_get (c_data c) ''status'' = Inr (JStr ''Active''))"
proof -
  have h1: "net (env_of net_new_user) (calls fresh) (register_call (env_of net_new_user) alice)
     = Resolved infra_response"
    by (simp add: env_of_def net_new_user_def register_call_def registerTenantUserURL_def)
  have h2: "field_at (resp_data infra_response) [''pool'', ''UserPool'', ''Id''] = JStr ''P1''"
    by (simp add: field_at_def infra_response_def)
  have h3: "field_at (resp_data infra_response) [''identityPool'', ''IdentityPoolId''] = JStr ''I1''"
    by (simp add: field_at_def infra_response_def)
  have h4: "field_at (resp_data infra_response) [''role'', ''systemAdminRole''] = JStr ''R1''"
    by (simp add: field_at_def infra_response_def)
  have h5: "field_at (resp_data infra_response) [''policy'', ''systemAdminPolicy''] = JStr ''PO1''"
    by (simp add: field_at_def infra_response_def)
  note c = registration_fields_are_persisted [OF alice_converts(1) alice_converts(2) h1 h2 h3 h4 h5]
  show ?thesis
    by (rule conjI [OF alice_converts(1) conjI [OF alice_converts(2)
          conjI [OF h1 conjI [OF h2 conjI [OF h3 conjI [OF h4 conjI [OF h5 c]]]]]]])
qed




text \<open>
  C5. When the existence check of a create request is made and is rejected with a body
  whose \<^verbatim>\<open>Error\<close> is \<^verbatim>\<open>User not found\<close>, the promise of \<open>verifyUserDoesntExist\<close> is
  fulfilled and the next outbound call of the handler is the registration. (The check is
  made for the requests whose user name converts to a string, lemma \<open>check_is_made_iff\<close>;
  for the others there is no existence check that could fail.)
\<close>

theorem user_not_found_proceeds_to_registration:
  assumes "\<exists>rest. calls (post_sys_admin e req w) =
             calls w @ check_call e (created_tenant e req) # rest"
    and "net e (calls w) (check_call e (created_tenant e req)) = Rejected m (Some r)"
    and "js_get (resp_data r) ''Error'' = Inr (JStr ''User not found'')"
  shows "fst (verifyUserDoesntExist e (created_tenant e req) (chain_start e w)) = Inr ()
         \<and> (\<exists>rest. calls (post_sys_admin e req w) =
                 calls w @ [check_call e (created_tenant e req),
                            register_call e (created_tenant e req)] @ rest)"
proof -
  let ?t = "created_tenant e req"
  from assms(1) have conv: "converts (userName (req_body req))"
    by (simp only: check_is_made_iff)
  have cu: "converts (userName ?t)" using conv by (simp add: created_tenant_fields)
  have ci: "converts (tid ?t)" by (rule created_tenant_fields)
  from assms(3) have "field_at (resp_data r) [''Error''] = JStr ''User not found''"
    unfolding field_at_def foldl.simps by (cases "resp_data r") simp_all
  with assms(2) have pass: "check_passes ?t (net e (calls (chain_start e w)) (check_call e ?t))"
    by (simp add: check_passes_def calls_chain_start)
  then have ok: "fst (verifyUserDoesntExist e ?t (chain_start e w)) = Inr ()"
    by (simp add: verify_fst_iff cu)
  let ?w1 = "snd (verifyUserDoesntExist e ?t (chain_start e w))"
  have "\<exists>rest. calls (snd (create_chain e ?t (chain_start e w))) =
          calls w @ [check_call e ?t, register_call e ?t] @ rest"
  proof (cases "fst (registerTenantAdmin e ?t ?w1)")
    case (Inl x)
    from chain_registration_fails(2) [OF cu pass Inl] show ?thesis
      by (simp add: calls_register calls_verify cu calls_chain_start)
  next
    case (Inr t')
    from chain_registered(1) [OF cu ci pass Inr] show ?thesis
      by (simp add: calls_chain_start)
  qed
  with ok show ?thesis by (simp add: calls_post_sys_admin)
qed

theorem user_not_found_proceeds_to_registration_witness:
  "(\<exists>rest. calls (post_sys_admin (env_of net_new_user) post_alice fresh) =
       calls fresh @ check_call (env_of net_new_user) (created_tenant (env_of net_new_user) post_alice)
         # rest)
   \<and> net (env_of net_new_user) (calls fresh)
       (check_call (env_of net_new_user) (created_tenant (env_of net_new_user) post_alice))
     = Rejected ''Request failed with status code 400'' (Some not_found_response)
   \<and> js_get (resp_data not_found_response) ''Error'' = Inr (JStr ''User not found'')
   \<and> fst (verifyUserDoesntExist (env_of net_new_user)
            (created_tenant (env_of net_new_user) post_alice)
            (chain_start (env_of net_new_user) fresh)) = Inr ()
   \<and> (\<exists>rest. calls (post_sys_admin (env_of net_new_user) post_alice fresh) =
         calls fresh @ [check_call (env_of net_new_user) (created_tenant (env_of net_new_user) post_alice),
                        register_call (env_of net_new_user) (created_tenant (env_of net_new_user) post_alice)]
           @ rest)"
proof -
  have h1: "net (env_of net_new_user) (calls fresh)
       (check_call (env_of net_new_user) (created_tenant (env_of net_new_user) post_alice))
     = Rejected ''Request failed with status code 400'' (Some not_found_response)"
    by (simp add: env_of_def net_new_user_def check_call_def)
  have h2: "js_get (resp_data not_found_response) ''Error'' = Inr (JStr ''User not found'')"
    by (simp add: not_found_response_def)
  have h0: "\<exists>rest. calls (post_sys_admin (env_of net_new_user) post_alice fresh) =
       calls fresh @ check_call (env_of net_new_user) (created_tenant (env_of net_new_user) post_alice)
         # rest"
    using alice_converts(3) by (simp only: check_is_made_iff)
  show ?thesis
    by (rule conjI [OF h0 conjI [OF h1 conjI [OF h2
          user_not_found_proceeds_to_registration [OF h0 h1 h2]]]])
qed

text \<open>
  C6. The tenant id of every create request starts with \<^verbatim>\<open>SYSADMIN\<close> and has no
  hyphen; what follows the prefix is the value of \<^verbatim>\<open>uuidV4()\<close> with its hyphens
  removed.
\<close>

theorem tenant_id_prefix_no_hyphen:
  "take 8 (tenant_id e) = ''SYSADMIN''
   \<and> CHR ''-'' \<notin> set (tenant_id e)
   \<and> drop 8 (tenant_id e) = filter (\<lambda>x. x \<noteq> CHR ''-'') (uuidV4 e)
   \<and> tid (created_tenant e req) = JStr (tenant_id e)"
  by (simp add: tenant_id_eq created_tenant_def)

theorem tenant_id_prefix_no_hyphen_witness:
  "tenant_id (env_of net_down) = ''SYSADMIN110ec58aa0f24ac48393c866d813b8d1''
   \<and> take 8 (tenant_id (env_of net_down)) = ''SYSADMIN''
   \<and> CHR ''-'' \<notin> set (tenant_id (env_of net_down))
   \<and> drop 8 (tenant_id (env_of net_down))
       = filter (\<lambda>x. x \<noteq> CHR ''-'') (uuidV4 (env_of net_down))
   \<and> tid (created_tenant (env_of net_down) post_alice) = JStr (tenant_id (env_of net_down))"
  by (rule conjI [OF tenant_id_demo tenant_id_prefix_no_hyphen])

text \<open>
  C7. The outbound calls of \<^verbatim>\<open>POST /sys/admin\<close> are: none, when the user name of the
  request does not convert to a string; the existence check alone, when the check does not
  pass; the check and the registration, when the check passes and the registration is
  rejected or its response lacks one of the values that the program reads properties of
  (\<^verbatim>\<open>data\<close>, \<^verbatim>\<open>pool\<close>, \<^verbatim>\<open>pool.UserPool\<close>, \<^verbatim>\<open>identityPool\<close>, \<^verbatim>\<open>role\<close>, \<^verbatim>\<open>policy\<close>); and
  the check, the registration and the persistence, in this order, when the check passes
  and the registration response holds all of these. So persistence is attempted only
  after a registration that was fulfilled, and each stage starts only after the one before
  it succeeded. A fulfilled registration need not have returned any of the seven
  identifiers: the program does not look at them, and persists \<^verbatim>\<open>undefined\<close> for each one
  that is missing.
\<close>

theorem create_stages_in_order:
  "\<exists>new. calls (post_sys_admin e req w) = calls w @ new \<and>
     (new = [] \<and> \<not> converts (userName (req_body req))
      \<or> new = [check_call e (created_tenant e req)]
        \<and> converts (userName (req_body req))
        \<and> \<not> check_passes (created_tenant e req) (net e (calls w) (check_call e (created_tenant e req)))
      \<or> new = [check_call e (created_tenant e req), register_call e (created_tenant e req)]
        \<and> converts (userName (req_body req))
        \<and> check_passes (created_tenant e req) (net e (calls w) (check_call e (created_tenant e req)))
        \<and> \<not> (\<exists>r. net e (calls w @ [check_call e (created_tenant e req)])
                     (register_call e (created_tenant e req)) = Resolved r
                 \<and> infra_containers_present (resp_data r))
      \<or> (\<exists>r. new = [check_call e (created_tenant e req), register_call e (created_tenant e req),
                      persist_call e (with_infra (created_tenant e req) (resp_data r))]
            \<and> converts (userName (req_body req))
            \<and> check_passes (created_tenant e req) (net e (calls w) (check_call e (created_tenant e req)))
            \<and> net e (calls w @ [check_call e (created_tenant e req)])
                 (register_call e (created_tenant e req)) = Resolved r
            \<and> infra_containers_present (resp_data r)))"
proof -
  define t where "t = created_tenant e req"
  define c1 where "c1 = check_call e t"
  define c2 where "c2 = register_call e t"
  define cv where "cv \<longleftrightarrow> converts (userName (req_body req))"
  have ci: "converts (tid t)" unfolding t_def by (rule created_tenant_fields)
  have "\<exists>new. calls (post_sys_admin e req w) = calls w @ new \<and>
     (new = [] \<and> \<not> cv
      \<or> new = [c1] \<and> cv \<and> \<not> check_passes t (net e (calls w) c1)
      \<or> new = [c1, c2] \<and> cv \<and> check_passes t (net e (calls w) c1)
          \<and> \<not> (\<exists>r. net e (calls w @ [c1]) c2 = Resolved r \<and> infra_containers_present (resp_data r))
      \<or> (\<exists>r. new = [c1, c2, persist_call e (with_infra t (resp_data r))]
            \<and> cv \<and> check_passes t (net e (calls w) c1)
            \<and> net e (calls w @ [c1]) c2 = Resolved r \<and> infra_containers_present (resp_data r)))"
  proof (cases cv)
    case False
    then have "calls (post_sys_admin e req w) = calls w"
      by (simp add: cv_def post_sys_admin_unprintable calls_chain_start)
    with False show ?thesis by simp
  next
    case cv: True
    then have cu: "converts (userName t)"
      by (simp add: cv_def t_def created_tenant_fields)
    show ?thesis
    proof (cases "check_passes t (net e (calls w) c1)")
      case False
      then have "\<not> check_passes t (net e (calls (chain_start e w)) (check_call e t))"
        by (simp add: c1_def calls_chain_start)
      from chain_check_fails(2) [OF cu this]
      have "calls (post_sys_admin e req w) = calls w @ [c1]"
        by (simp add: calls_post_sys_admin t_def [symmetric] calls_verify cu calls_chain_start c1_def)
      with False cv show ?thesis by simp
    next
      case True
      then have pass: "check_passes t (net e (calls (chain_start e w)) (check_call e t))"
        by (simp add: c1_def calls_chain_start)
      let ?w1 = "snd (verifyUserDoesntExist e t (chain_start e w))"
      have c: "calls ?w1 = calls w @ [c1]"
        by (simp add: calls_verify cu calls_chain_start c1_def)
      show ?thesis
      proof (cases "fst (registerTenantAdmin e t ?w1)")
        case (Inl x)
        have no: "\<not> (\<exists>r. net e (calls w @ [c1]) c2 = Resolved r
            \<and> infra_containers_present (resp_data r))"
        proof
          assume "\<exists>r. net e (calls w @ [c1]) c2 = Resolved r \<and> infra_containers_present (resp_data r)"
          then have "\<exists>t'. fst (registerTenantAdmin e t ?w1) = Inr t'"
            by (simp add: register_fst_iff cu c c2_def)
          with Inl show False by simp
        qed
        from chain_registration_fails(2) [OF cu pass Inl]
        have "calls (post_sys_admin e req w) = calls w @ [c1, c2]"
          by (simp add: calls_post_sys_admin t_def [symmetric] calls_register cu c c2_def)
        with True no cv show ?thesis by simp
      next
        case (Inr t')
        then obtain r where r: "net e (calls w @ [c1]) c2 = Resolved r"
          "infra_containers_present (resp_data r)" "t' = with_infra t (resp_data r)"
          by (auto simp add: register_fst_iff cu c c2_def)
        from chain_registered(1) [OF cu ci pass Inr]
        have "calls (post_sys_admin e req w) = calls w @ [c1, c2, persist_call e t']"
          by (simp add: calls_post_sys_admin t_def [symmetric] calls_chain_start c1_def c2_def)
        with True r cv show ?thesis by auto
      qed
    qed
  qed
  then show ?thesis unfolding c1_def c2_def t_def cv_def .
qed

theorem create_stages_in_order_witness:
  "map (\<lambda>c. (c_method c, c_url c)) (calls (post_sys_admin (env_of net_new_user) post_alice fresh)) =
     [(''GET'', ''http://user/pool/alice''), (''POST'', ''http://user/system''),
      (''POST'', ''http://tenant'')]
   \<and> map (\<lambda>c. (c_method c, c_url c)) (calls (post_sys_admin (env_of net_down) post_alice fresh)) =
     [(''GET'', ''http://user/pool/alice'')]
   \<and> (\<exists>new. calls (post_sys_admin (env_of net_new_user) post_alice fresh) = calls fresh @ new
         \<and> length new \<le> 3)"
proof -
  have d: "map (\<lambda>c. (c_method c, c_url c)) (calls (post_sys_admin (env_of net_down) post_alice fresh)) =
     [(''GET'', ''http://user/pool/alice'')]"
    by (simp add: run_defs demo_defs Let_def)
  from create_stages_in_order [of "env_of net_new_user" post_alice fresh]
  obtain new where n: "calls (post_sys_admin (env_of net_new_user) post_alice fresh) = calls fresh @ new"
    and "length new = 0 \<or> length new = 1 \<or> length new = 2 \<or> length new = 3"
    by fastforce
  then have "length new \<le> 3" by auto
  with n have "\<exists>new. calls (post_sys_admin (env_of net_new_user) post_alice fresh) = calls fresh @ new
         \<and> length new \<le> 3" by (intro exI [of _ new] conjI)
  with new_user_trace d show ?thesis by (intro conjI)
qed

theorem persistence_without_identifiers_counterexample:
  "map (\<lambda>c. (c_method c, c_url c)) (calls (post_sys_admin (env_of net_bare) post_alice fresh)) =
     [(''GET'', ''http://user/pool/alice''), (''POST'', ''http://user/system''),
      (''POST'', ''http://tenant'')]
   \<and> net (env_of net_bare)
       [check_call (env_of net_bare) (created_tenant (env_of net_bare) post_alice)]
       (register_call (env_of net_bare) (created_tenant (env_of net_bare) post_alice))
     = Resolved bare_response
   \<and> field_at (resp_data bare_response) [''pool'', ''UserPool'', ''Id''] = JUndefined
   \<and> field_at (resp_data bare_response) [''identityPool'', ''IdentityPoolId''] = JUndefined
   \<and> field_at (resp_data bare_response) [''role'', ''systemAdminRole''] = JUndefined
   \<and> field_at (resp_data bare_response) [''role'', ''systemSupportRole''] = JUndefined
   \<and> field_at (resp_data bare_response) [''role'', ''trustRole''] = JUndefined
   \<and> field_at (resp_data bare_response) [''policy'', ''systemAdminPolicy''] = JUndefined
   \<and> field_at (resp_data bare_response) [''policy'', ''systemSupportPolicy''] = JUndefined
   \<and> js_get (c_data (last (calls (post_sys_admin (env_of net_bare) post_alice fresh))))
        ''UserPoolId'' = Inr JUndefined
   \<and> statusCode (res (post_sys_admin (env_of net_bare) post_alice fresh)) = 200
   \<and> sent (res (post_sys_admin (env_of net_bare) post_alice fresh)) =
       Some (Text ''System admin user SYSADMIN110ec58aa0f24ac48393c866d813b8d1 registered'')"
  by (simp add: run_defs demo_defs Let_def attach_infra_def bind_e_def tenant_record_def
      field_at_def tenant_id_eq)

text \<open>
  C8. \<^verbatim>\<open>DELETE /sys/admin\<close> answers 200 with its success text whatever the downstream
  delete call does. When that call is rejected, the rejection's message is logged at level
  info and the handler goes on as after a success.
\<close>

theorem destroy_reports_success:
  "res (delete_sys_admin e w) =
     (res w)\<lparr>statusCode := 200, sent := Some (Text ''System Infrastructure & Tables removed'')\<rparr>
   \<and> (net e (calls w) (delete_call e) = Rejected m ro \<longrightarrow>
        logs (delete_sys_admin e w) =
          logs w @ [(Info, Str (''Error Removing Infrastructure: '' @ m)),
                    (Debug, Str ''Delete Infra''),
                    (Debug, Str ''System Infrastructure & Tables removed'')])"
  by (simp add: delete_sys_admin_eq deleteInfra_eq res_send_def res_status_def logger_def)

theorem destroy_reports_success_witness:
  "net (env_of net_down) (calls fresh) (delete_call (env_of net_down))
     = Rejected ''connect ECONNREFUSED'' None
   \<and> res (delete_sys_admin (env_of net_down) fresh) =
       (res fresh)\<lparr>statusCode := 200, sent := Some (Text ''System Infrastructure & Tables removed'')\<rparr>
   \<and> logs (delete_sys_admin (env_of net_down) fresh) =
       logs fresh @ [(Info, Str (''Error Removing Infrastructure: '' @ ''connect ECONNREFUSED'')),
                     (Debug, Str ''Delete Infra''),
                     (Debug, Str ''System Infrastructure & Tables removed'')]"
proof -
  have h: "net (env_of net_down) (calls fresh) (delete_call (env_of net_down))
     = Rejected ''connect ECONNREFUSED'' None"
    by (simp add: env_of_def net_down_def)
  note t = destroy_reports_success [of "env_of net_down" fresh "''connect ECONNREFUSED''" None]
  show ?thesis
    by (rule conjI [OF h conjI [OF t [THEN conjunct1] t [THEN conjunct2, THEN mp, OF h]]])
qed




text \<open>
  C10. \<open>deleteInfra\<close> is fulfilled whatever the downstream delete call does, so the
  \<^verbatim>\<open>catch\<close> handler of \<^verbatim>\<open>DELETE /sys/admin\<close> never runs: the response is always 200,
  never the handler's 400 text, and the handler's error line is never logged.
\<close>

theorem destroy_error_branch_unreachable:
  "fst (deleteInfra e w) = Inr ()
   \<and> statusCode (res (delete_sys_admin e w)) = 200
   \<and> sent (res (delete_sys_admin e w)) \<noteq> Some (Text '' Error removing system'')
   \<and> (Err, Str ''Error removing system'')
       \<notin> set (drop (length (logs w)) (logs (delete_sys_admin e w)))"
  by (simp add: delete_sys_admin_eq deleteInfra_eq res_send_def res_status_def logger_def
      split: axios_result.splits)

theorem destroy_error_branch_unreachable_witness:
  "net (env_of net_down) (calls fresh) (delete_call (env_of net_down))
     = Rejected ''connect ECONNREFUSED'' None
   \<and> fst (deleteInfra (env_of net_down) fresh) = Inr ()
   \<and> statusCode (res (delete_sys_admin (env_of net_down) fresh)) = 200
   \<and> sent (res (delete_sys_admin (env_of net_down) fresh)) \<noteq> Some (Text '' Error removing system'')
   \<and> (Err, Str ''Error removing system'')
       \<notin> set (drop (length (logs fresh)) (logs (delete_sys_admin (env_of net_down) fresh)))"
proof -
  have h: "net (env_of net_down) (calls fresh) (delete_call (env_of net_down))
     = Rejected ''connect ECONNREFUSED'' None"
    by (simp add: env_of_def net_down_def)
  show ?thesis
    by (rule conjI [OF h destroy_error_branch_unreachable [of "env_of net_down" fresh]])
qed


end
